theory Spec2Isabelle
  imports Main
begin

section \<open>Values shared by the gateway and the routes\<close>

text \<open>
  Strings are \<^typ>\<open>string\<close>, one \<^typ>\<open>char\<close> for each code unit of the JavaScript string:
  the strings of the model are those whose code units are below U+0100 (every literal of
  the sources is ASCII), and the helpers below are the JavaScript methods on them. A value
  a \<^verbatim>\<open>try\<close> block can catch is an \<open>exn\<close>: an \<^verbatim>\<open>Error\<close> with its message, or some other
  thrown value.
\<close>

datatype exn = Error string | Thrown

text \<open>\<^verbatim>\<open>err instanceof Error ? err.message : 'Unknown error'\<close>\<close>

fun err_message :: "exn \<Rightarrow> string" where
  "err_message (Error m) = m"
| "err_message Thrown = ''Unknown error''"

text \<open>A JavaScript string or \<^verbatim>\<open>undefined\<close> used as a condition.\<close>

fun truthy :: "string option \<Rightarrow> bool" where
  "truthy None = False"
| "truthy (Some s) = (s \<noteq> [])"

text \<open>\<^verbatim>\<open>a || b\<close> on strings: \<open>b\<close> when \<open>a\<close> is \<^verbatim>\<open>undefined\<close> or empty.\<close>

fun or_else :: "string option \<Rightarrow> string \<Rightarrow> string" where
  "or_else None b = b"
| "or_else (Some a) b = (if a = [] then b else a)"

fun str_startsWith :: "string \<Rightarrow> string \<Rightarrow> bool" where
  "str_startsWith s [] = True"
| "str_startsWith [] (p # ps) = False"
| "str_startsWith (c # cs) (p # ps) = (c = p \<and> str_startsWith cs ps)"

text \<open>\<^verbatim>\<open>s.includes(needle)\<close>: the needle starts at some position of \<open>s\<close>.\<close>

fun str_includes :: "string \<Rightarrow> string \<Rightarrow> bool" where
  "str_includes [] needle = (needle = [])"
| "str_includes (c # cs) needle = (str_startsWith (c # cs) needle \<or> str_includes cs needle)"

text \<open>\<^verbatim>\<open>s?.includes(needle)\<close> as a condition: \<^verbatim>\<open>undefined\<close> is falsy.\<close>

fun opt_includes :: "string option \<Rightarrow> string \<Rightarrow> bool" where
  "opt_includes None needle = False"
| "opt_includes (Some s) needle = str_includes s needle"

text \<open>
  \<^verbatim>\<open>s.trim()\<close> strips white space and line terminators from both ends. Below U+0100
  these are the tab, the line feed, the vertical tab, the form feed, the carriage return,
  the space and the no-break space U+00A0.
\<close>

definition is_space :: "char \<Rightarrow> bool" where
  "is_space c =
     (c \<in> set [CHR '' '', CHR 0x09, CHR 0x0A, CHR 0x0B, CHR 0x0C, CHR 0x0D, CHR 0xA0])"

definition str_trim :: "string \<Rightarrow> string" where
  "str_trim s = rev (dropWhile is_space (rev (dropWhile is_space s)))"

text \<open>
  \<^verbatim>\<open>s.toLowerCase()\<close>. Below U+0100 the letters with a lower case are A to Z and U+00C0
  to U+00DE without the multiplication sign U+00D7; the lower case is 32 code units up.
\<close>

definition upper_units :: string where
  "upper_units =
     ''ABCDEFGHIJKLMNOPQRSTUVWXYZ''
     @ [CHR 0xC0, CHR 0xC1, CHR 0xC2, CHR 0xC3, CHR 0xC4, CHR 0xC5, CHR 0xC6, CHR 0xC7,
        CHR 0xC8, CHR 0xC9, CHR 0xCA, CHR 0xCB, CHR 0xCC, CHR 0xCD, CHR 0xCE, CHR 0xCF,
        CHR 0xD0, CHR 0xD1, CHR 0xD2, CHR 0xD3, CHR 0xD4, CHR 0xD5, CHR 0xD6,
        CHR 0xD8, CHR 0xD9, CHR 0xDA, CHR 0xDB, CHR 0xDC, CHR 0xDD, CHR 0xDE]"

definition lower_units :: string where
  "lower_units =
     ''abcdefghijklmnopqrstuvwxyz''
     @ [CHR 0xE0, CHR 0xE1, CHR 0xE2, CHR 0xE3, CHR 0xE4, CHR 0xE5, CHR 0xE6, CHR 0xE7,
        CHR 0xE8, CHR 0xE9, CHR 0xEA, CHR 0xEB, CHR 0xEC, CHR 0xED, CHR 0xEE, CHR 0xEF,
        CHR 0xF0, CHR 0xF1, CHR 0xF2, CHR 0xF3, CHR 0xF4, CHR 0xF5, CHR 0xF6,
        CHR 0xF8, CHR 0xF9, CHR 0xFA, CHR 0xFB, CHR 0xFC, CHR 0xFD, CHR 0xFE]"

definition str_toLowerCase :: "string \<Rightarrow> string" where
  "str_toLowerCase s =
     map (\<lambda>c. case map_of (zip upper_units lower_units) c of
                 Some l \<Rightarrow> l
               | None \<Rightarrow> c) s"

text \<open>
  A regular expression anchored at the start of the string, made of single-character
  steps: \<^verbatim>\<open>\d\<close> or a literal character.
\<close>

datatype pat = Digit | Lit char

definition is_digit :: "char \<Rightarrow> bool" where
  "is_digit c = (c \<in> set ''0123456789'')"

fun match_prefix :: "pat list \<Rightarrow> string \<Rightarrow> bool" where
  "match_prefix [] s = True"
| "match_prefix (p # ps) [] = False"
| "match_prefix (Digit # ps) (c # cs) = (is_digit c \<and> match_prefix ps cs)"
| "match_prefix (Lit l # ps) (c # cs) = (c = l \<and> match_prefix ps cs)"

text \<open>\<^verbatim>\<open>/^\d{4}-\d{2}-\d{2}/\<close>\<close>

definition iso_date_pattern :: "pat list" where
  "iso_date_pattern =
     [Digit, Digit, Digit, Digit, Lit CHR ''-'', Digit, Digit, Lit CHR ''-'', Digit, Digit]"

text \<open>\<^verbatim>\<open>lastSync && lastSync.match(/^\d{4}-\d{2}-\d{2}/)\<close> as a condition.\<close>

fun marker_ok :: "string option \<Rightarrow> bool" where
  "marker_ok None = False"
| "marker_ok (Some t) = (t \<noteq> [] \<and> match_prefix iso_date_pattern t)"

section \<open>The sandbox\<close>

text \<open>
  The sandbox is the environment of the program. A process handle is watched over time,
  counted in poll sleeps since the handle was obtained: \<open>status p k\<close>, \<open>exitCode p k\<close> and
  \<open>getLogs p k\<close> are what the handle shows after \<open>k\<close> sleeps; reading the logs can throw.
  \<open>waitForPort p port timeout\<close> returns when the port answered in time and throws otherwise.
\<close>

record logs =
  stdout :: "string option"
  stderr :: "string option"

record process =
  proc_id :: string
  status :: "nat \<Rightarrow> string"
  exitCode :: "nat \<Rightarrow> int option"
  getLogs :: "nat \<Rightarrow> exn + logs"
  waitForPort :: "nat \<Rightarrow> nat \<Rightarrow> exn + unit"

text \<open>
  Every call that leaves the program is logged, oldest first. The environment is
  deterministic but otherwise arbitrary: its answer to a call is a function of the calls
  made before it.
\<close>

datatype call =
    StartProcess string
  | MountBucket string
  | MountR2Storage
  | FindExistingClawdbotProcess
  | EnsureClawdbotGateway
  | Kill string
  | WaitForPort string nat nat
  | SetTimeout nat
  | WaitUntil
  | VerifyAccessJWT string string string
  | Next

record env =
  R2_ACCESS_KEY_ID :: "string option"
  R2_SECRET_ACCESS_KEY :: "string option"
  CF_ACCOUNT_ID :: "string option"
  DEV_MODE :: "string option"
  MOLTBOT_GATEWAY_TOKEN :: "string option"
  CF_ACCESS_TEAM_DOMAIN :: "string option"
  CF_ACCESS_AUD :: "string option"

record sandbox =
  startProcess :: "call list \<Rightarrow> string \<Rightarrow> exn + process"
  mountBucket :: "call list \<Rightarrow> string \<Rightarrow> env \<Rightarrow> exn + unit"


section \<open>gateway/sync.ts\<close>

record SyncResult =
  success :: bool
  lastSync :: "string option"
  error :: "string option"
  details :: "string option"

text \<open>
  \<^verbatim>\<open>waitForProcess\<close> of sync.ts: the status is read before each sleep; the result is the
  number of sleeps made. \<open>max_attempts\<close> is \<^verbatim>\<open>Math.ceil(timeoutMs / pollInterval)\<close>.
\<close>

definition max_attempts :: "nat \<Rightarrow> nat" where
  "max_attempts timeoutMs = (timeoutMs + 499) div 500"

function sync_wait_loop :: "process \<Rightarrow> nat \<Rightarrow> nat \<Rightarrow> nat" where
  "sync_wait_loop proc maxAttempts attempts =
     (if status proc attempts = ''running'' \<and> attempts < maxAttempts
      then sync_wait_loop proc maxAttempts (Suc attempts)
      else attempts)"
  by pat_completeness auto
termination
  by (relation "measure (\<lambda>(proc, maxAttempts, attempts). maxAttempts - attempts)") auto

definition sync_waitForProcess :: "process \<Rightarrow> nat \<Rightarrow> nat" where
  "sync_waitForProcess proc timeoutMs = sync_wait_loop proc (max_attempts timeoutMs) 0"

definition check_cmd :: string where
  "check_cmd = ''test -f /root/.clawdbot/clawdbot.json && echo \"ok\"''"

text \<open>\<open>R2_MOUNT_PATH\<close> is a constant of config.ts, which is not among the sources: a parameter.\<close>

definition syncCmd :: "string \<Rightarrow> string" where
  "syncCmd R2_MOUNT_PATH =
     ''rsync -r --no-times --delete --exclude='' @ [CHR 0x27] @ ''*.lock'' @ [CHR 0x27]
     @ '' --exclude='' @ [CHR 0x27] @ ''*.log'' @ [CHR 0x27]
     @ '' --exclude='' @ [CHR 0x27] @ ''*.tmp'' @ [CHR 0x27]
     @ '' /root/.clawdbot/ '' @ R2_MOUNT_PATH @ ''/ && date -Iseconds > ''
     @ R2_MOUNT_PATH @ ''/.last-sync''"

definition timestamp_cmd :: "string \<Rightarrow> string" where
  "timestamp_cmd R2_MOUNT_PATH = ''cat '' @ R2_MOUNT_PATH @ ''/.last-sync''"

definition sync_failure :: "string \<Rightarrow> string option \<Rightarrow> SyncResult" where
  "sync_failure e d = \<lparr>success = False, lastSync = None, error = Some e, details = d\<rparr>"

text \<open>\<^verbatim>\<open>logs.stderr || logs.stdout || 'No timestamp file created'\<close>\<close>

definition failure_details :: "logs \<Rightarrow> string" where
  "failure_details l = or_else (stderr l) (or_else (stdout l) ''No timestamp file created'')"

text \<open>
  The second \<^verbatim>\<open>try\<close> block of \<open>syncToR2\<close> (the mirror and the marker), entered with the
  calls \<open>h\<close> made so far. Every throw inside it ends in the \<^verbatim>\<open>catch\<close>.
\<close>

definition sync_mirror :: "string \<Rightarrow> sandbox \<Rightarrow> call list \<Rightarrow> SyncResult \<times> call list" where
  "sync_mirror R2_MOUNT_PATH sb h =
     (let h1 = h @ [StartProcess (syncCmd R2_MOUNT_PATH)] in
      case startProcess sb h (syncCmd R2_MOUNT_PATH) of
        Inl err \<Rightarrow> (sync_failure ''Sync error'' (Some (err_message err)), h1)
      | Inr proc \<Rightarrow>
          (let w1 = sync_waitForProcess proc 30000;
               h2 = h1 @ [StartProcess (timestamp_cmd R2_MOUNT_PATH)] in
           case startProcess sb h1 (timestamp_cmd R2_MOUNT_PATH) of
             Inl err \<Rightarrow> (sync_failure ''Sync error'' (Some (err_message err)), h2)
           | Inr timestampProc \<Rightarrow>
               (let w2 = sync_waitForProcess timestampProc 5000 in
                case getLogs timestampProc w2 of
                  Inl err \<Rightarrow> (sync_failure ''Sync error'' (Some (err_message err)), h2)
                | Inr timestampLogs \<Rightarrow>
                    (let lastSync = map_option str_trim (stdout timestampLogs) in
                     if marker_ok lastSync
                     then (\<lparr>success = True, lastSync = lastSync, error = None, details = None\<rparr>, h2)
                     else
                       (case getLogs proc (w1 + w2) of
                          Inl err \<Rightarrow> (sync_failure ''Sync error'' (Some (err_message err)), h2)
                        | Inr logs \<Rightarrow>
                            (sync_failure ''Sync failed'' (Some (failure_details logs)), h2))))))"

text \<open>
  \<open>syncToR2\<close>. \<open>mountR2Storage\<close> (gateway/r2.ts) is not among the sources: it is a call to
  the environment, answered by the parameter \<open>mount\<close>; it is awaited outside every
  \<^verbatim>\<open>try\<close>, so its throw is the throw of \<open>syncToR2\<close> (\<open>Inl\<close>).
\<close>

definition syncToR2 ::
  "string \<Rightarrow> (call list \<Rightarrow> exn + bool) \<Rightarrow> sandbox \<Rightarrow> env \<Rightarrow> call list
   \<Rightarrow> (exn + SyncResult) \<times> call list" where
  "syncToR2 R2_MOUNT_PATH mount sb e h =
     (if \<not> truthy (R2_ACCESS_KEY_ID e) \<or> \<not> truthy (R2_SECRET_ACCESS_KEY e)
         \<or> \<not> truthy (CF_ACCOUNT_ID e)
      then (Inr (sync_failure ''R2 storage is not configured'' None), h)
      else
        (let h1 = h @ [MountR2Storage] in
         case mount h of
           Inl err \<Rightarrow> (Inl err, h1)
         | Inr mounted \<Rightarrow>
             if \<not> mounted then (Inr (sync_failure ''Failed to mount R2 storage'' None), h1)
             else
               (let h2 = h1 @ [StartProcess check_cmd] in
                case startProcess sb h1 check_cmd of
                  Inl err \<Rightarrow>
                    (Inr (sync_failure ''Failed to verify source files'' (Some (err_message err))), h2)
                | Inr checkProc \<Rightarrow>
                    (case getLogs checkProc (sync_waitForProcess checkProc 5000) of
                       Inl err \<Rightarrow>
                         (Inr (sync_failure ''Failed to verify source files''
                                 (Some (err_message err))), h2)
                     | Inr checkLogs \<Rightarrow>
                         if \<not> opt_includes (stdout checkLogs) ''ok''
                         then (Inr (sync_failure ''Sync aborted: source missing clawdbot.json''
                                 (Some ''The local config directory is missing critical files. This could indicate corruption or an incomplete setup.'')), h2)
                         else (case sync_mirror R2_MOUNT_PATH sb h2 of
                                 (r, h3) \<Rightarrow> (Inr r, h3))))))"

section \<open>The routes: health, devices, storage, restart\<close>

text \<open>
  The value handed to \<^verbatim>\<open>c.json\<close>: a JavaScript value, where a property can hold
  \<^verbatim>\<open>undefined\<close>. A response is \<^verbatim>\<open>c.json(value, status)\<close> (status 200 when the source
  gives none), \<^verbatim>\<open>c.html(page, status)\<close> or \<^verbatim>\<open>c.redirect(url, status)\<close>.
\<close>

datatype jsval =
    JUndefined
  | JNull
  | JBool bool
  | JNum int
  | JStr string
  | JArr "jsval list"
  | JObj "(string \<times> jsval) list"

datatype page = NotConfiguredPage | MissingTokenPage string | InvalidSessionPage string

datatype response = Json jsval nat | Html page nat | Redirect string nat

fun opt_str :: "string option \<Rightarrow> jsval" where
  "opt_str None = JUndefined"
| "opt_str (Some s) = JStr s"

definition CLI_TIMEOUT_MS :: nat where
  "CLI_TIMEOUT_MS = 20000"

text \<open>
  \<^verbatim>\<open>waitForProcess\<close> of the routes: it sleeps first and reads the status after each sleep;
  the result is the number of sleeps made.
\<close>

function cli_wait_loop :: "process \<Rightarrow> nat \<Rightarrow> nat \<Rightarrow> nat" where
  "cli_wait_loop proc maxAttempts attempts =
     (if attempts < maxAttempts
      then (if status proc (Suc attempts) \<noteq> ''running'' then Suc attempts
            else cli_wait_loop proc maxAttempts (Suc attempts))
      else attempts)"
  by pat_completeness auto
termination
  by (relation "measure (\<lambda>(proc, maxAttempts, attempts). maxAttempts - attempts)") auto

definition cli_waitForProcess :: "process \<Rightarrow> nat \<Rightarrow> nat" where
  "cli_waitForProcess proc timeoutMs = cli_wait_loop proc (max_attempts timeoutMs) 0"

text \<open>The \<^verbatim>\<open>catch (error)\<close> that closes every admin handler.\<close>

definition error_500 :: "exn \<Rightarrow> response" where
  "error_500 err = Json (JObj [(''error'', JStr (err_message err))]) 500"

text \<open>
  \<^verbatim>\<open>GET /status\<close>. \<open>findExistingClawdbotProcess\<close> (gateway/process.ts) is not among the
  sources: a call to the environment, answered by the parameter \<open>findExisting\<close>.
\<close>

definition api_status ::
  "(call list \<Rightarrow> exn + process option) \<Rightarrow> call list \<Rightarrow> response \<times> call list" where
  "api_status findExisting h =
     (let h1 = h @ [FindExistingClawdbotProcess] in
      case findExisting h of
        Inl err \<Rightarrow>
          (Json (JObj [(''ok'', JBool False), (''status'', JStr ''error''),
                       (''error'', JStr (err_message err))]) 200, h1)
      | Inr None \<Rightarrow>
          (Json (JObj [(''ok'', JBool False), (''status'', JStr ''not_running'')]) 200, h1)
      | Inr (Some process) \<Rightarrow>
          (let h2 = h1 @ [WaitForPort (proc_id process) 18789 5000] in
           case waitForPort process 18789 5000 of
             Inr u \<Rightarrow>
               (Json (JObj [(''ok'', JBool True), (''status'', JStr ''running''),
                            (''processId'', JStr (proc_id process))]) 200, h2)
           | Inl err \<Rightarrow>
               (Json (JObj [(''ok'', JBool False), (''status'', JStr ''not_responding''),
                            (''processId'', JStr (proc_id process))]) 200, h2)))"

definition list_cmd :: string where
  "list_cmd = ''clawdbot devices list --json --url ws://localhost:18789''"

text \<open>
  \<^verbatim>\<open>stdout.match(/\{[\s\S]*\}/)\<close>, greedy: from the first opening brace to the last closing
  brace after it; no match when no closing brace follows the first opening one.
\<close>

definition json_match :: "string \<Rightarrow> string option" where
  "json_match s =
     (case dropWhile (\<lambda>c. c \<noteq> CHR ''{'') s of
        [] \<Rightarrow> None
      | b # rest \<Rightarrow>
          (case rev (dropWhile (\<lambda>c. c \<noteq> CHR ''}'') (rev rest)) of
             [] \<Rightarrow> None
           | t # ts \<Rightarrow> Some (b # t # ts)))"

definition raw_listing :: "string \<Rightarrow> string \<Rightarrow> (string \<times> jsval) list" where
  "raw_listing stdout_text stderr_text =
     [(''pending'', JArr []), (''paired'', JArr []),
      (''raw'', JStr stdout_text), (''stderr'', JStr stderr_text)]"

text \<open>
  \<^verbatim>\<open>GET /devices\<close>. \<open>ensureClawdbotGateway\<close> (gateway/process.ts) is a call to the
  environment, answered by \<open>ensure\<close>; \<^verbatim>\<open>JSON.parse\<close> is the parameter \<open>JSON_parse\<close>.
\<close>

definition admin_devices ::
  "(call list \<Rightarrow> exn + unit) \<Rightarrow> sandbox \<Rightarrow> (string \<Rightarrow> exn + jsval) \<Rightarrow> call list
   \<Rightarrow> response \<times> call list" where
  "admin_devices ensure sb JSON_parse h =
     (let h1 = h @ [EnsureClawdbotGateway] in
      case ensure h of
        Inl err \<Rightarrow> (error_500 err, h1)
      | Inr u \<Rightarrow>
          (let h2 = h1 @ [StartProcess list_cmd] in
           case startProcess sb h1 list_cmd of
             Inl err \<Rightarrow> (error_500 err, h2)
           | Inr proc \<Rightarrow>
               (case getLogs proc (cli_waitForProcess proc CLI_TIMEOUT_MS) of
                  Inl err \<Rightarrow> (error_500 err, h2)
                | Inr logs \<Rightarrow>
                    (let stdout_text = or_else (stdout logs) [];
                         stderr_text = or_else (stderr logs) [] in
                     case json_match stdout_text of
                       Some m \<Rightarrow>
                         (case JSON_parse m of
                            Inr data \<Rightarrow> (Json data 200, h2)
                          | Inl err \<Rightarrow>
                              (Json (JObj (raw_listing stdout_text stderr_text
                                 @ [(''parseError'', JStr ''Failed to parse CLI output'')])) 200, h2))
                     | None \<Rightarrow> (Json (JObj (raw_listing stdout_text stderr_text)) 200, h2)))))"

definition approve_cmd :: "string \<Rightarrow> string" where
  "approve_cmd requestId =
     ''clawdbot devices approve '' @ requestId @ '' --url ws://localhost:18789''"

text \<open>\<^verbatim>\<open>POST /devices/:requestId/approve\<close>\<close>

definition admin_approve ::
  "(call list \<Rightarrow> exn + unit) \<Rightarrow> sandbox \<Rightarrow> string option \<Rightarrow> call list
   \<Rightarrow> response \<times> call list" where
  "admin_approve ensure sb requestId h =
     (if \<not> truthy requestId
      then (Json (JObj [(''error'', JStr ''requestId is required'')]) 400, h)
      else
        (let rid = or_else requestId [];
             h1 = h @ [EnsureClawdbotGateway] in
         case ensure h of
           Inl err \<Rightarrow> (error_500 err, h1)
         | Inr u \<Rightarrow>
             (let h2 = h1 @ [StartProcess (approve_cmd rid)] in
              case startProcess sb h1 (approve_cmd rid) of
                Inl err \<Rightarrow> (error_500 err, h2)
              | Inr proc \<Rightarrow>
                  (let w = cli_waitForProcess proc CLI_TIMEOUT_MS in
                   case getLogs proc w of
                     Inl err \<Rightarrow> (error_500 err, h2)
                   | Inr logs \<Rightarrow>
                       (let stdout_text = or_else (stdout logs) [];
                            stderr_text = or_else (stderr logs) [];
                            ok = (str_includes (str_toLowerCase stdout_text) ''approved''
                                  \<or> exitCode proc w = Some 0) in
                        (Json (JObj [(''success'', JBool ok),
                                     (''requestId'', JStr rid),
                                     (''message'', JStr (if ok then ''Device approved''
                                                         else ''Approval may have failed'')),
                                     (''stdout'', JStr stdout_text),
                                     (''stderr'', JStr stderr_text)]) 200, h2))))))"

text \<open>
  \<^verbatim>\<open>POST /devices/approve-all\<close>. The list is typed as the source types it,
  \<^verbatim>\<open>Array<{ requestId: string }>\<close>; \<open>pending_prop\<close> reads \<^verbatim>\<open>data.pending\<close> at that type
  (\<open>None\<close> when the property is missing or falsy). A result of the loop is
  \<^verbatim>\<open>{ requestId, success, error? }\<close>.
\<close>

datatype device = Device (requestId: string)

datatype approval = Approval (a_requestId: string) (a_success: bool) (a_error: "string option")

fun approval_obj :: "approval \<Rightarrow> jsval" where
  "approval_obj (Approval r ok None) = JObj [(''requestId'', JStr r), (''success'', JBool ok)]"
| "approval_obj (Approval r ok (Some e)) =
     JObj [(''requestId'', JStr r), (''success'', JBool ok), (''error'', JStr e)]"

text \<open>One turn of the \<^verbatim>\<open>for\<close> loop: the \<^verbatim>\<open>try\<close> block and its \<^verbatim>\<open>catch\<close>.\<close>

definition approve_one :: "sandbox \<Rightarrow> device \<Rightarrow> call list \<Rightarrow> approval \<times> call list" where
  "approve_one sb device h =
     (let h1 = h @ [StartProcess (approve_cmd (requestId device))] in
      case startProcess sb h (approve_cmd (requestId device)) of
        Inl err \<Rightarrow> (Approval (requestId device) False (Some (err_message err)), h1)
      | Inr approveProc \<Rightarrow>
          (let w = cli_waitForProcess approveProc CLI_TIMEOUT_MS in
           case getLogs approveProc w of
             Inl err \<Rightarrow> (Approval (requestId device) False (Some (err_message err)), h1)
           | Inr approveLogs \<Rightarrow>
               (Approval (requestId device)
                  (opt_includes (map_option str_toLowerCase (stdout approveLogs)) ''approved''
                   \<or> exitCode approveProc w = Some 0)
                  None, h1)))"

fun approve_loop ::
  "sandbox \<Rightarrow> device list \<Rightarrow> approval list \<Rightarrow> call list \<Rightarrow> approval list \<times> call list" where
  "approve_loop sb [] results h = (results, h)"
| "approve_loop sb (device # rest) results h =
     (case approve_one sb device h of
        (r, h1) \<Rightarrow> approve_loop sb rest (results @ [r]) h1)"

text \<open>A number inside a template literal.\<close>

fun show_nat :: "nat \<Rightarrow> string" where
  "show_nat n =
     (if n < 10 then [''0123456789'' ! n]
      else show_nat (n div 10) @ [''0123456789'' ! (n mod 10)])"

definition approve_all_response :: "approval list \<Rightarrow> nat \<Rightarrow> response" where
  "approve_all_response results n =
     Json (JObj
       [(''approved'', JArr (map (\<lambda>r. JStr (a_requestId r)) (filter a_success results))),
        (''failed'', JArr (map approval_obj (filter (\<lambda>r. \<not> a_success r) results))),
        (''message'', JStr (''Approved '' @ show_nat (length (filter a_success results))
                            @ '' of '' @ show_nat n @ '' device(s)''))]) 200"

definition admin_approve_all ::
  "(call list \<Rightarrow> exn + unit) \<Rightarrow> sandbox \<Rightarrow> (string \<Rightarrow> exn + 'j)
   \<Rightarrow> ('j \<Rightarrow> device list option) \<Rightarrow> call list \<Rightarrow> response \<times> call list" where
  "admin_approve_all ensure sb JSON_parse pending_prop h =
     (let h1 = h @ [EnsureClawdbotGateway] in
      case ensure h of
        Inl err \<Rightarrow> (error_500 err, h1)
      | Inr u \<Rightarrow>
          (let h2 = h1 @ [StartProcess list_cmd] in
           case startProcess sb h1 list_cmd of
             Inl err \<Rightarrow> (error_500 err, h2)
           | Inr listProc \<Rightarrow>
               (case getLogs listProc (cli_waitForProcess listProc CLI_TIMEOUT_MS) of
                  Inl err \<Rightarrow> (error_500 err, h2)
                | Inr listLogs \<Rightarrow>
                    (let stdout_text = or_else (stdout listLogs) [] in
                     case (case json_match stdout_text of
                             None \<Rightarrow> Inr []
                           | Some m \<Rightarrow>
                               (case JSON_parse m of
                                  Inl err \<Rightarrow> Inl err
                                | Inr data \<Rightarrow>
                                    (case pending_prop data of
                                       None \<Rightarrow> Inr []
                                     | Some ds \<Rightarrow> Inr ds))) of
                       Inl err \<Rightarrow>
                         (Json (JObj [(''error'', JStr ''Failed to parse device list''),
                                      (''raw'', JStr stdout_text)]) 500, h2)
                     | Inr pending \<Rightarrow>
                         if length pending = 0
                         then (Json (JObj [(''approved'', JArr []),
                                           (''message'', JStr ''No pending devices to approve'')])
                                 200, h2)
                         else (case approve_loop sb pending [] h2 of
                                 (results, h3) \<Rightarrow>
                                   (approve_all_response results (length pending), h3))))))"

text \<open>
  \<^verbatim>\<open>POST /storage/sync\<close>. \<open>syncToR2\<close> is awaited outside every \<^verbatim>\<open>try\<close>: when it throws,
  so does the handler.
\<close>

definition admin_storage_sync ::
  "string \<Rightarrow> (call list \<Rightarrow> exn + bool) \<Rightarrow> sandbox \<Rightarrow> env \<Rightarrow> call list
   \<Rightarrow> (exn + response) \<times> call list" where
  "admin_storage_sync R2_MOUNT_PATH mount sb e h =
     (case syncToR2 R2_MOUNT_PATH mount sb e h of
        (Inl err, h1) \<Rightarrow> (Inl err, h1)
      | (Inr result, h1) \<Rightarrow>
          if success result
          then (Inr (Json (JObj [(''success'', JBool True),
                                 (''message'', JStr ''Sync completed successfully''),
                                 (''lastSync'', opt_str (lastSync result))]) 200), h1)
          else (Inr (Json (JObj [(''success'', JBool False),
                                 (''error'', opt_str (error result)),
                                 (''details'', opt_str (details result))])
                       (if opt_includes (error result) ''not configured'' then 400 else 500)), h1))"


section \<open>The access middleware\<close>

record user =
  email :: string
  name :: "string option"

text \<open>
  What the middleware reads of a request: \<open>url_token\<close> is
  \<^verbatim>\<open>new URL(c.req.url).searchParams.get('token')\<close>, \<open>header\<close> is \<^verbatim>\<open>c.req.header(name)\<close>.
\<close>

record request =
  url_token :: "string option"
  header :: "string \<Rightarrow> string option"

datatype response_type = json | html

record AccessMiddlewareOptions =
  response_type :: response_type
  redirectOnMissing :: bool

definition isDevMode :: "env \<Rightarrow> bool" where
  "isDevMode e = (DEV_MODE e = Some ''true'')"

text \<open>\<^verbatim>\<open>s.split(sep)\<close> for a separator of one character.\<close>

fun str_split :: "char \<Rightarrow> string \<Rightarrow> string list" where
  "str_split sep [] = [[]]"
| "str_split sep (c # cs) =
     (if c = sep then [] # str_split sep cs
      else (case str_split sep cs of
              [] \<Rightarrow> [[c]]
            | w # ws \<Rightarrow> (c # w) # ws))"

text \<open>\<^verbatim>\<open>s.replace(pattern, replacement)\<close> for a string pattern: the first occurrence only.\<close>

fun str_replace :: "string \<Rightarrow> string \<Rightarrow> string \<Rightarrow> string" where
  "str_replace [] pattern replacement = (if pattern = [] then replacement else [])"
| "str_replace (c # cs) pattern replacement =
     (if str_startsWith (c # cs) pattern then replacement @ drop (length pattern) (c # cs)
      else c # str_replace cs pattern replacement)"

text \<open>\<^verbatim>\<open>a || b\<close> where both may be \<^verbatim>\<open>undefined\<close>.\<close>

definition or_opt :: "string option \<Rightarrow> string option \<Rightarrow> string option" where
  "or_opt a b = (if truthy a then a else b)"

text \<open>\<^verbatim>\<open>xs[1]\<close>\<close>

fun second :: "'a list \<Rightarrow> 'a option" where
  "second (x # y # ys) = Some y"
| "second xs = None"

definition extractJWT :: "request \<Rightarrow> string option" where
  "extractJWT req =
     (let jwtHeader = header req ''CF-Access-JWT-Assertion'';
          jwtCookie =
            (case header req ''Cookie'' of
               None \<Rightarrow> None
             | Some cookies \<Rightarrow>
                 (case List.find (\<lambda>cookie. str_startsWith (str_trim cookie) ''CF_Authorization='')
                         (str_split CHR '';'' cookies) of
                    None \<Rightarrow> None
                  | Some cookie \<Rightarrow> second (str_split CHR ''='' cookie)))
      in if truthy (or_opt jwtHeader jwtCookie) then or_opt jwtHeader jwtCookie else None)"

definition hasValidGatewayToken :: "env \<Rightarrow> request \<Rightarrow> bool" where
  "hasValidGatewayToken e req =
     (if \<not> truthy (MOLTBOT_GATEWAY_TOKEN e) then False
      else
        (let expectedToken = MOLTBOT_GATEWAY_TOKEN e;
             queryToken = url_token req;
             headerToken =
               or_opt (header req ''X-Gateway-Token'')
                 (map_option (\<lambda>a. str_replace a ''Bearer '' []) (header req ''Authorization''))
         in queryToken = expectedToken \<or> headerToken = expectedToken))"

text \<open>
  \<^verbatim>\<open>c.set('accessUser', u); return next()\<close>: the rest of the chain runs with the user set
  and its response is the response of the middleware.
\<close>

definition set_user_and_next ::
  "(user \<Rightarrow> call list \<Rightarrow> response \<times> call list) \<Rightarrow> user \<Rightarrow> call list
   \<Rightarrow> response \<times> user option \<times> call list" where
  "set_user_and_next next_handler u h =
     (case next_handler u (h @ [Next]) of (r, h1) \<Rightarrow> (r, Some u, h1))"

text \<open>
  \<open>createAccessMiddleware\<close>: the response, the \<^verbatim>\<open>accessUser\<close> left in the context and the
  calls made. \<open>verifyAccessJWT\<close> (auth/jwt.ts) is not among the sources: a call to the
  environment, answered by the parameter \<open>verify\<close>. The pages stand for the HTML literals.
\<close>

definition createAccessMiddleware ::
  "AccessMiddlewareOptions \<Rightarrow> (call list \<Rightarrow> string \<Rightarrow> string \<Rightarrow> string \<Rightarrow> exn + user)
   \<Rightarrow> (user \<Rightarrow> call list \<Rightarrow> response \<times> call list) \<Rightarrow> env \<Rightarrow> request \<Rightarrow> call list
   \<Rightarrow> response \<times> user option \<times> call list" where
  "createAccessMiddleware options verify next_handler e req h =
     (if isDevMode e
      then set_user_and_next next_handler \<lparr>email = ''dev@localhost'', name = Some ''Dev User''\<rparr> h
      else if hasValidGatewayToken e req
      then set_user_and_next next_handler \<lparr>email = ''gateway-token@cli'', name = Some ''CLI User''\<rparr> h
      else if \<not> truthy (CF_ACCESS_TEAM_DOMAIN e) \<or> \<not> truthy (CF_ACCESS_AUD e)
      then (if response_type options = json
            then (Json (JObj [(''error'', JStr ''Cloudflare Access not configured''),
                              (''hint'', JStr ''Set CF_ACCESS_TEAM_DOMAIN and CF_ACCESS_AUD environment variables'')])
                    500, None, h)
            else (Html NotConfiguredPage 500, None, h))
      else
        (let teamDomain = or_else (CF_ACCESS_TEAM_DOMAIN e) [];
             expectedAud = or_else (CF_ACCESS_AUD e) [] in
         case extractJWT req of
           None \<Rightarrow>
             (if response_type options = html \<and> redirectOnMissing options
              then (Redirect (''https://'' @ teamDomain) 302, None, h)
              else if response_type options = json
              then (Json (JObj [(''error'', JStr ''Unauthorized''),
                                (''hint'', JStr ''Missing Cloudflare Access JWT. Ensure this route is protected by Cloudflare Access.'')])
                      401, None, h)
              else (Html (MissingTokenPage teamDomain) 401, None, h))
         | Some jwt \<Rightarrow>
             (let h1 = h @ [VerifyAccessJWT jwt teamDomain expectedAud] in
              case verify h jwt teamDomain expectedAud of
                Inr payload \<Rightarrow> set_user_and_next next_handler payload h1
              | Inl err \<Rightarrow>
                  (if response_type options = json
                   then (Json (JObj [(''error'', JStr ''Unauthorized''),
                                     (''details'', JStr (case err of
                                          Error m \<Rightarrow> m
                                        | Thrown \<Rightarrow> ''JWT verification failed''))])
                           401, None, h1)
                   else (Html (InvalidSessionPage teamDomain) 401, None, h1)))))"

section \<open>gateway/r2.ts\<close>

text \<open>
  Modelled from the spec: \<open>mountR2Storage\<close> of gateway/r2.ts, the spec's \<open>ensureMounted\<close>, is
  not among the sources. After the spec: it first inspects the local mount table
  (\<open>inspect\<close>, a read of the environment); when the fixed path is already mounted it
  returns success and does nothing else; otherwise it issues one mount request with the
  credentials; a request that fails because the target is "already in use" is a success;
  any other failure of the request is surfaced as it is.
\<close>

definition ensureMounted ::
  "string \<Rightarrow> (call list \<Rightarrow> bool) \<Rightarrow> sandbox \<Rightarrow> env \<Rightarrow> call list
   \<Rightarrow> (exn + bool) \<times> call list" where
  "ensureMounted R2_MOUNT_PATH inspect sb credentials h =
     (if inspect h then (Inr True, h)
      else
        (case mountBucket sb h R2_MOUNT_PATH credentials of
           Inr u \<Rightarrow> (Inr True, h @ [MountBucket R2_MOUNT_PATH])
         | Inl err \<Rightarrow>
             if str_includes (err_message err) ''already in use''
             then (Inr True, h @ [MountBucket R2_MOUNT_PATH])
             else (Inl err, h @ [MountBucket R2_MOUNT_PATH])))"

text \<open>Two calls in succession: the second starts from the calls the first has made.\<close>

definition ensureMounted_twice ::
  "string \<Rightarrow> (call list \<Rightarrow> bool) \<Rightarrow> sandbox \<Rightarrow> env \<Rightarrow> call list
   \<Rightarrow> (exn + bool) \<times> (exn + bool) \<times> call list" where
  "ensureMounted_twice R2_MOUNT_PATH inspect sb credentials h =
     (case ensureMounted R2_MOUNT_PATH inspect sb credentials h of
        (r1, h1) \<Rightarrow>
          (case ensureMounted R2_MOUNT_PATH inspect sb credentials h1 of
             (r2, h2) \<Rightarrow> (r1, r2, h2)))"

section \<open>test-utils.ts\<close>

text \<open>
  \<open>createMockProcess\<close>: a handle that always shows the same status, exit code and logs.
  The mock has no \<^verbatim>\<open>id\<close> and no \<^verbatim>\<open>waitForPort\<close>: the id is empty here and the call throws.
\<close>

definition createMockProcess :: "string \<Rightarrow> int \<Rightarrow> string \<Rightarrow> string \<Rightarrow> process" where
  "createMockProcess out code err st =
     \<lparr>proc_id = [], status = (\<lambda>k. st), exitCode = (\<lambda>k. Some code),
      getLogs = (\<lambda>k. Inr \<lparr>stdout = Some out, stderr = Some err\<rparr>),
      waitForPort = (\<lambda>port timeout. Inl Thrown)\<rparr>"

definition createMockEnvWithR2 :: env where
  "createMockEnvWithR2 =
     \<lparr>R2_ACCESS_KEY_ID = Some ''test-key-id'', R2_SECRET_ACCESS_KEY = Some ''test-secret-key'',
      CF_ACCOUNT_ID = Some ''test-account-id'', DEV_MODE = None, MOLTBOT_GATEWAY_TOKEN = None,
      CF_ACCESS_TEAM_DOMAIN = None, CF_ACCESS_AUD = None\<rparr>"

definition createMockEnv :: env where
  "createMockEnv =
     \<lparr>R2_ACCESS_KEY_ID = None, R2_SECRET_ACCESS_KEY = None, CF_ACCOUNT_ID = None,
      DEV_MODE = None, MOLTBOT_GATEWAY_TOKEN = None,
      CF_ACCESS_TEAM_DOMAIN = None, CF_ACCESS_AUD = None\<rparr>"

text \<open>
  \<open>createMockSandbox\<close>: \<^verbatim>\<open>startProcess\<close> answers each command with the process \<open>reply\<close>
  gives for it, \<^verbatim>\<open>mountBucket\<close> resolves.
\<close>

definition createMockSandbox :: "(string \<Rightarrow> exn + process) \<Rightarrow> sandbox" where
  "createMockSandbox reply =
     \<lparr>startProcess = (\<lambda>h cmd. reply cmd), mountBucket = (\<lambda>h path credentials. Inr ())\<rparr>"

section \<open>Example environments\<close>

text \<open>The mount path the mock of test-utils.ts shows in its mount table.\<close>

definition mock_mount_path :: string where
  "mock_mount_path = ''/data/clawdbot''"

definition mount_ok :: "call list \<Rightarrow> exn + bool" where
  "mount_ok h = Inr True"

definition mount_refused :: "call list \<Rightarrow> exn + bool" where
  "mount_refused h = Inr False"

text \<open>The default of \<open>createMockSandbox\<close>: every command completes with empty output.\<close>

definition reply_empty :: "string \<Rightarrow> exn + process" where
  "reply_empty cmd = Inr (createMockProcess [] 0 [] ''completed'')"

text \<open>
  A sandbox where the source check prints ok, the marker file stays empty and the logs of
  the mirror process cannot be read.
\<close>

definition unreadable_process :: process where
  "unreadable_process =
     (createMockProcess [] 0 [] ''completed'')\<lparr>getLogs := (\<lambda>k. Inl (Error ''logs unavailable''))\<rparr>"

definition reply_unreadable_mirror :: "string \<Rightarrow> exn + process" where
  "reply_unreadable_mirror cmd =
     (if cmd = check_cmd then Inr (createMockProcess ''ok'' 0 [] ''completed'')
      else if cmd = syncCmd mock_mount_path then Inr unreadable_process
      else Inr (createMockProcess [] 0 [] ''completed''))"

text \<open>A sandbox where the source check prints ok and the marker holds a timestamp.\<close>

definition reply_synced :: "string \<Rightarrow> exn + process" where
  "reply_synced cmd =
     (if cmd = check_cmd then Inr (createMockProcess ''ok'' 0 [] ''completed'')
      else if cmd = timestamp_cmd mock_mount_path
      then Inr (createMockProcess (''2026-01-27T12:00:00+00:00'' @ [CHR 0x0A]) 0 [] ''completed'')
      else Inr (createMockProcess [] 0 [] ''completed''))"

text \<open>A sandbox where the source check prints ok and the marker file stays empty.\<close>

definition reply_no_marker :: "string \<Rightarrow> exn + process" where
  "reply_no_marker cmd =
     (if cmd = check_cmd then Inr (createMockProcess ''ok'' 0 [] ''completed'')
      else Inr (createMockProcess [] 0 [] ''completed''))"

text \<open>The mirror commands among the calls: what has been written to the durable mount.\<close>

definition mirror_runs :: "call list \<Rightarrow> call list" where
  "mirror_runs h = filter (\<lambda>c. c = StartProcess (syncCmd mock_mount_path)) h"

text \<open>Answers of the gateway calls that are not among the sources.\<close>

definition ensure_ok :: "call list \<Rightarrow> exn + unit" where
  "ensure_ok h = Inr ()"

definition find_none :: "call list \<Rightarrow> exn + process option" where
  "find_none h = Inr None"

text \<open>A gateway process whose port never answers, and one whose port answers.\<close>

definition wedged_gateway :: process where
  "wedged_gateway = (createMockProcess [] 0 [] ''running'')\<lparr>proc_id := ''gw-1''\<rparr>"

definition running_gateway :: process where
  "running_gateway =
     (createMockProcess [] 0 [] ''running'')
       \<lparr>proc_id := ''gw-2'', waitForPort := (\<lambda>port timeout. Inr ())\<rparr>"

definition find_wedged :: "call list \<Rightarrow> exn + process option" where
  "find_wedged h = Inr (Some wedged_gateway)"

definition find_running :: "call list \<Rightarrow> exn + process option" where
  "find_running h = Inr (Some running_gateway)"

text \<open>The approval of the spec's example: the keyword on standard output, exit code 1.\<close>

definition reply_approved_exit_1 :: "string \<Rightarrow> exn + process" where
  "reply_approved_exit_1 cmd = Inr (createMockProcess ''Approved device X'' 1 [] ''completed'')"

text \<open>
  The listing of the spec's example, which has no closing brace, and the same with one;
  a \<^verbatim>\<open>JSON.parse\<close> that rejects every text.
\<close>

definition malformed_stdout :: string where
  "malformed_stdout = ''log line'' @ [CHR 0x0A] @ ''{not valid json''"

definition reply_malformed :: "string \<Rightarrow> exn + process" where
  "reply_malformed cmd = Inr (createMockProcess malformed_stdout 0 [] ''completed'')"

definition reply_malformed_closed :: "string \<Rightarrow> exn + process" where
  "reply_malformed_closed cmd =
     Inr (createMockProcess (malformed_stdout @ ''}'') 0 [] ''completed'')"

definition parse_rejects :: "string \<Rightarrow> exn + jsval" where
  "parse_rejects text = Inl (Error ''Unexpected token n in JSON at position 1'')"

text \<open>
  A request with no credential at all, in an environment where only \<open>DEV_MODE\<close> is set; a
  \<open>verifyAccessJWT\<close> that rejects every token; a downstream handler that answers with the
  user it was given.
\<close>

definition dev_env :: env where
  "dev_env = createMockEnv\<lparr>DEV_MODE := Some ''true''\<rparr>"

definition bare_request :: request where
  "bare_request = \<lparr>url_token = None, header = (\<lambda>n. None)\<rparr>"

definition verify_rejects :: "call list \<Rightarrow> string \<Rightarrow> string \<Rightarrow> string \<Rightarrow> exn + user" where
  "verify_rejects h jwt teamDomain expectedAud = Inl (Error ''invalid token'')"

definition whoami :: "user \<Rightarrow> call list \<Rightarrow> response \<times> call list" where
  "whoami u h = (Json (JObj [(''email'', JStr (email u)), (''name'', opt_str (name u))]) 200, h)"

definition json_options :: AccessMiddlewareOptions where
  "json_options = \<lparr>response_type = json, redirectOnMissing = False\<rparr>"

text \<open>
  Mount tables and mount requests: a table that never shows the mount, one that shows it
  once a mount request has been made; a request that is refused, one that finds the target
  in use.
\<close>

definition inspect_never :: "call list \<Rightarrow> bool" where
  "inspect_never h = False"

definition inspect_after_mount :: "call list \<Rightarrow> bool" where
  "inspect_after_mount h = (MountBucket mock_mount_path \<in> set h)"

definition sandbox_denied :: sandbox where
  "sandbox_denied =
     \<lparr>startProcess = (\<lambda>h cmd. reply_empty cmd),
      mountBucket = (\<lambda>h path credentials. Inl (Error ''AccessDenied''))\<rparr>"

definition sandbox_in_use :: sandbox where
  "sandbox_in_use =
     \<lparr>startProcess = (\<lambda>h cmd. reply_empty cmd),
      mountBucket = (\<lambda>h path credentials. Inl (Error ''mount point already in use''))\<rparr>"

text \<open>
  The bulk approval of the spec's example: the list command prints a listing of three
  pending devices, the approval of the second throws, the other two print the keyword.
  A second listing has no pending device. \<open>parse_listings\<close> is what \<^verbatim>\<open>JSON.parse\<close> answers
  on these two texts; the examples hand it no other text, and there it throws (it is an
  answer function for the examples, not a JSON parser). \<open>typed_pending\<close> reads
  \<^verbatim>\<open>data.pending\<close> of a well-typed listing.
\<close>

definition three_listing_text :: string where
  "three_listing_text =
     ''{\"pending\":[{\"requestId\":\"id1\"},{\"requestId\":\"id2\"},{\"requestId\":\"id3\"}],\"paired\":[]}''"

definition three_listing :: jsval where
  "three_listing =
     JObj [(''pending'', JArr [JObj [(''requestId'', JStr ''id1'')],
                               JObj [(''requestId'', JStr ''id2'')],
                               JObj [(''requestId'', JStr ''id3'')]]),
           (''paired'', JArr [])]"

definition empty_listing_text :: string where
  "empty_listing_text = ''{\"pending\":[],\"paired\":[]}''"

definition empty_listing :: jsval where
  "empty_listing = JObj [(''pending'', JArr []), (''paired'', JArr [])]"

definition parse_listings :: "string \<Rightarrow> exn + jsval" where
  "parse_listings text =
     (if text = three_listing_text then Inr three_listing
      else if text = empty_listing_text then Inr empty_listing
      else Inl (Error ''Unexpected token''))"

fun typed_device :: "jsval \<Rightarrow> device" where
  "typed_device (JObj fs) =
     (case map_of fs ''requestId'' of Some (JStr r) \<Rightarrow> Device r | _ \<Rightarrow> Device ''undefined'')"
| "typed_device v = Device ''undefined''"

fun typed_pending :: "jsval \<Rightarrow> device list option" where
  "typed_pending (JObj fs) =
     (case map_of fs ''pending'' of Some (JArr ds) \<Rightarrow> Some (map typed_device ds) | _ \<Rightarrow> None)"
| "typed_pending v = None"

definition reply_second_throws :: "string \<Rightarrow> exn + process" where
  "reply_second_throws cmd =
     (if cmd = list_cmd then Inr (createMockProcess three_listing_text 0 [] ''completed'')
      else if cmd = approve_cmd ''id2'' then Inl (Error ''spawn failed'')
      else Inr (createMockProcess ''Approved'' 0 [] ''completed''))"

definition reply_none_pending :: "string \<Rightarrow> exn + process" where
  "reply_none_pending cmd =
     (if cmd = list_cmd then Inr (createMockProcess empty_listing_text 0 [] ''completed'')
      else Inr (createMockProcess ''Approved'' 0 [] ''completed''))"



section \<open>Facts about the helpers\<close>

declare sync_wait_loop.simps [simp del]
declare cli_wait_loop.simps [simp del]
declare show_nat.simps [simp del]

text \<open>The no-break space is trimmed; the letters above U+00BF have their lower case.\<close>

lemma str_trim_nbsp:
  "str_trim (CHR 0xA0 # ''2026-01-27T00:00:00Z'' @ [CHR 0x0A]) = ''2026-01-27T00:00:00Z''"
  by (simp add: str_trim_def is_space_def)

lemma marker_ok_nbsp:
  "marker_ok (map_option str_trim (Some (CHR 0xA0 # ''2026-01-27T00:00:00Z'')))"
  by (simp add: str_trim_def is_space_def iso_date_pattern_def is_digit_def)

lemma str_toLowerCase_units:
  "str_toLowerCase [CHR ''A'', CHR ''z'', CHR 0xC0, CHR 0xD7, CHR 0xDE, CHR 0xDF]
     = [CHR ''a'', CHR ''z'', CHR 0xE0, CHR 0xD7, CHR 0xFE, CHR 0xDF]"
  by (simp add: str_toLowerCase_def upper_units_def lower_units_def)

lemma syncCmd_not_check: "syncCmd mp \<noteq> check_cmd"
  by (simp add: syncCmd_def check_cmd_def)

lemma timestamp_cmd_not_check: "timestamp_cmd mp \<noteq> check_cmd"
  by (simp add: timestamp_cmd_def check_cmd_def)

lemma timestamp_cmd_not_syncCmd: "timestamp_cmd mp \<noteq> syncCmd mp'"
  by (simp add: timestamp_cmd_def syncCmd_def)

lemma mock_wait: "st \<noteq> ''running'' \<Longrightarrow> sync_waitForProcess (createMockProcess out code err st) t = 0"
  by (simp add: sync_waitForProcess_def sync_wait_loop.simps createMockProcess_def)

lemma mock_getLogs: "getLogs (createMockProcess out code err st) k = Inr \<lparr>stdout = Some out, stderr = Some err\<rparr>"
  by (simp add: createMockProcess_def)

lemma sync_mirror_error:
  "\<not> success (fst (sync_mirror mp sb h)) \<Longrightarrow>
     error (fst (sync_mirror mp sb h)) = Some ''Sync error''
     \<or> error (fst (sync_mirror mp sb h)) = Some ''Sync failed''"
  by (auto simp: sync_mirror_def Let_def sync_failure_def split: sum.splits)

lemma syncToR2_error:
  assumes "fst (syncToR2 mp mount sb e h) = Inr r" and "\<not> success r"
  shows "opt_includes (error r) ''not configured''
         = (\<not> truthy (R2_ACCESS_KEY_ID e) \<or> \<not> truthy (R2_SECRET_ACCESS_KEY e)
            \<or> \<not> truthy (CF_ACCOUNT_ID e))"
proof (cases "\<not> truthy (R2_ACCESS_KEY_ID e) \<or> \<not> truthy (R2_SECRET_ACCESS_KEY e)
            \<or> \<not> truthy (CF_ACCOUNT_ID e)")
  case True
  then have "r = sync_failure ''R2 storage is not configured'' None"
    using assms(1) by (auto simp: syncToR2_def)
  then show ?thesis using True by (simp add: sync_failure_def)
next
  case False
  have "error r \<in> {Some ''Failed to mount R2 storage'', Some ''Failed to verify source files'',
                    Some ''Sync aborted: source missing clawdbot.json'',
                    Some ''Sync error'', Some ''Sync failed''}"
    using assms False sync_mirror_error [of mp sb "h @ [MountR2Storage, StartProcess check_cmd]"]
    by (auto simp: syncToR2_def Let_def sync_failure_def split: sum.splits if_splits prod.splits)
  then have "\<not> opt_includes (error r) ''not configured''"
    by auto
  then show ?thesis using False by simp
qed

lemma syncToR2_reaches_mirror:
  assumes "truthy (R2_ACCESS_KEY_ID e)" and "truthy (R2_SECRET_ACCESS_KEY e)"
    and "truthy (CF_ACCOUNT_ID e)"
    and "mount h = Inr True"
    and "startProcess sb (h @ [MountR2Storage]) check_cmd = Inr checkProc"
    and "getLogs checkProc (sync_waitForProcess checkProc 5000) = Inr checkLogs"
    and "opt_includes (stdout checkLogs) ''ok''"
  shows "syncToR2 mp mount sb e h =
           (Inr (fst (sync_mirror mp sb (h @ [MountR2Storage, StartProcess check_cmd]))),
            snd (sync_mirror mp sb (h @ [MountR2Storage, StartProcess check_cmd])))"
  using assms by (simp add: syncToR2_def split: prod.splits)

lemma mock_exitCode: "exitCode (createMockProcess out code err st) k = Some code"
  by (simp add: createMockProcess_def)

lemma approve_one_calls:
  "snd (approve_one sb d h) = h @ [StartProcess (approve_cmd (requestId d))]"
  by (simp add: approve_one_def Let_def split: sum.splits)

lemma approve_loop_calls:
  "snd (approve_loop sb ds rs h) = h @ map (\<lambda>d. StartProcess (approve_cmd (requestId d))) ds"
proof (induction ds arbitrary: rs h)
  case Nil
  then show ?case by simp
next
  case (Cons d ds)
  obtain r h1 where o: "approve_one sb d h = (r, h1)"
    by (cases "approve_one sb d h")
  with approve_one_calls [of sb d h] have "h1 = h @ [StartProcess (approve_cmd (requestId d))]"
    by simp
  with o Cons.IH [of "rs @ [r]" h1] show ?case
    by simp
qed

lemma approve_loop_length:
  "length (fst (approve_loop sb ds rs h)) = length rs + length ds"
proof (induction ds arbitrary: rs h)
  case Nil
  then show ?case by simp
next
  case (Cons d ds)
  obtain r h1 where o: "approve_one sb d h = (r, h1)"
    by (cases "approve_one sb d h")
  with Cons.IH [of "rs @ [r]" h1] show ?case
    by simp
qed

lemma approve_loop_acc:
  "fst (approve_loop sb ds rs h) = rs @ fst (approve_loop sb ds [] h)"
proof (induction ds arbitrary: rs h)
  case Nil
  then show ?case by simp
next
  case (Cons d ds)
  obtain r h1 where o: "approve_one sb d h = (r, h1)"
    by (cases "approve_one sb d h")
  from Cons.IH [of "rs @ [r]" h1] Cons.IH [of "[r]" h1] o show ?case
    by simp
qed

lemma approve_loop_Cons:
  "fst (approve_loop sb (d # ds) [] h)
     = fst (approve_one sb d h)
       # fst (approve_loop sb ds [] (h @ [StartProcess (approve_cmd (requestId d))]))"
proof -
  obtain r h1 where o: "approve_one sb d h = (r, h1)"
    by (cases "approve_one sb d h")
  with approve_one_calls [of sb d h] have "h1 = h @ [StartProcess (approve_cmd (requestId d))]"
    by simp
  with o approve_loop_acc [of sb ds "[r]" h1] show ?thesis
    by simp
qed

lemma approve_loop_nth:
  "i < length ds \<Longrightarrow>
   fst (approve_loop sb ds [] h) ! i
     = fst (approve_one sb (ds ! i)
              (h @ map (\<lambda>d. StartProcess (approve_cmd (requestId d))) (take i ds)))"
proof (induction ds arbitrary: h i)
  case Nil
  then show ?case by simp
next
  case (Cons d ds)
  show ?case
  proof (cases i)
    case 0
    then show ?thesis by (simp add: approve_loop_Cons del: approve_loop.simps)
  next
    case (Suc j)
    with Cons.prems have "j < length ds" by simp
    from Cons.IH [OF this, of "h @ [StartProcess (approve_cmd (requestId d))]"] Suc
    show ?thesis
      by (simp add: approve_loop_Cons del: approve_loop.simps)
  qed
qed

lemma approve_one_result:
  "(startProcess sb h (approve_cmd (requestId d)) = Inl err \<longrightarrow>
      fst (approve_one sb d h) = Approval (requestId d) False (Some (err_message err)))
   \<and> (startProcess sb h (approve_cmd (requestId d)) = Inr p
       \<and> getLogs p (cli_waitForProcess p CLI_TIMEOUT_MS) = Inl err \<longrightarrow>
      fst (approve_one sb d h) = Approval (requestId d) False (Some (err_message err)))
   \<and> (startProcess sb h (approve_cmd (requestId d)) = Inr p
       \<and> getLogs p (cli_waitForProcess p CLI_TIMEOUT_MS) = Inr l \<longrightarrow>
      fst (approve_one sb d h)
        = Approval (requestId d)
            (opt_includes (map_option str_toLowerCase (stdout l)) ''approved''
             \<or> exitCode p (cli_waitForProcess p CLI_TIMEOUT_MS) = Some 0) None)"
  by (simp add: approve_one_def Let_def)

lemma list3_eq:
  "length xs = 3 \<Longrightarrow> xs ! 0 = a \<Longrightarrow> xs ! 1 = b \<Longrightarrow> xs ! 2 = c \<Longrightarrow> xs = [a, b, c]"
  by (cases xs; cases "tl xs"; cases "tl (tl xs)") auto

text \<open>
  What \<open>json_match\<close> finds: nothing exactly when no closing brace follows an opening one;
  otherwise the text from the first opening brace to the last closing brace.
\<close>

lemma json_match_None_iff:
  "json_match s = None \<longleftrightarrow> \<not> (\<exists>a b c. s = a @ CHR ''{'' # b @ CHR ''}'' # c)"
proof
  assume n: "json_match s = None"
  show "\<not> (\<exists>a b c. s = a @ CHR ''{'' # b @ CHR ''}'' # c)"
  proof
    assume "\<exists>a b c. s = a @ CHR ''{'' # b @ CHR ''}'' # c"
    then obtain a b c where s: "s = a @ CHR ''{'' # b @ CHR ''}'' # c" by blast
    let ?P = "\<lambda>x. x \<noteq> CHR ''{''"
    have "\<exists>rest. dropWhile ?P s = CHR ''{'' # rest \<and> CHR ''}'' \<in> set rest"
    proof (cases "\<forall>x\<in>set a. ?P x")
      case True
      then have "dropWhile ?P s = CHR ''{'' # b @ CHR ''}'' # c"
        unfolding s by (simp add: dropWhile_append)
      then show ?thesis by simp
    next
      case False
      then have d: "dropWhile ?P s = dropWhile ?P a @ CHR ''{'' # b @ CHR ''}'' # c"
        unfolding s by (simp add: dropWhile_append)
      from False have "dropWhile ?P a \<noteq> []" by (simp add: dropWhile_eq_Nil_conv)
      then obtain x xs where e: "dropWhile ?P a = x # xs" by (cases "dropWhile ?P a") auto
      then have "\<not> ?P x" using hd_dropWhile [of ?P a] by (metis list.sel(1) list.discI)
      with d e show ?thesis by simp
    qed
    then obtain rest where r: "dropWhile ?P s = CHR ''{'' # rest" and m: "CHR ''}'' \<in> set rest"
      by blast
    from m have "dropWhile (\<lambda>x. x \<noteq> CHR ''}'') (rev rest) \<noteq> []"
      by (auto simp: dropWhile_eq_Nil_conv)
    then have "rev (dropWhile (\<lambda>x. x \<noteq> CHR ''}'') (rev rest)) \<noteq> []" by simp
    with r n show False
      by (auto simp: json_match_def split: list.splits)
  qed
next
  assume a: "\<not> (\<exists>a b c. s = a @ CHR ''{'' # b @ CHR ''}'' # c)"
  let ?P = "\<lambda>x. x \<noteq> CHR ''{''"
  show "json_match s = None"
  proof (cases "dropWhile ?P s")
    case Nil
    then show ?thesis by (simp only: json_match_def list.case)
  next
    case (Cons x rest)
    then have x: "x = CHR ''{''" using hd_dropWhile [of ?P s] by (metis list.sel(1) list.discI)
    have s: "s = takeWhile ?P s @ CHR ''{'' # rest"
      using takeWhile_dropWhile_id [of ?P s] Cons x by simp
    have "CHR ''}'' \<notin> set rest"
    proof
      assume "CHR ''}'' \<in> set rest"
      then obtain r1 r2 where "rest = r1 @ CHR ''}'' # r2" by (meson split_list)
      with s have "s = takeWhile ?P s @ CHR ''{'' # r1 @ CHR ''}'' # r2" by simp
      with a show False by blast
    qed
    then have "dropWhile (\<lambda>x. x \<noteq> CHR ''}'') (rev rest) = []"
      by (auto simp: dropWhile_eq_Nil_conv)
    with Cons show ?thesis by (simp only: json_match_def list.case rev.simps)
  qed
qed


lemma json_match_Some:
  assumes "json_match s = Some m"
  shows "\<exists>a b c. s = a @ m @ c \<and> m = CHR ''{'' # b @ ''}''
                 \<and> CHR ''{'' \<notin> set a \<and> CHR ''}'' \<notin> set c"
proof -
  let ?P = "\<lambda>x. x \<noteq> CHR ''{''"
  let ?Q = "\<lambda>x. x \<noteq> CHR ''}''"
  from assms obtain x rest where d: "dropWhile ?P s = x # rest"
    by (cases "dropWhile ?P s") (simp_all only: json_match_def list.case option.distinct)
  then have x: "x = CHR ''{''"
    using hd_dropWhile [of ?P s] by (metis list.sel(1) list.discI)
  have s: "s = takeWhile ?P s @ CHR ''{'' # rest"
    using takeWhile_dropWhile_id [of ?P s] d x by simp
  have a: "CHR ''{'' \<notin> set (takeWhile ?P s)"
    by (auto dest: set_takeWhileD)
  from assms d obtain y u where e: "dropWhile ?Q (rev rest) = y # u"
    by (cases "dropWhile ?Q (rev rest)") (simp_all only: json_match_def list.case rev.simps option.distinct)
  then have y: "y = CHR ''}''"
    using hd_dropWhile [of ?Q "rev rest"] by (metis list.sel(1) list.discI)
  from assms d e x y have m: "m = CHR ''{'' # rev u @ ''}''"
    by (simp add: json_match_def split: list.splits)
  have "rev rest = takeWhile ?Q (rev rest) @ dropWhile ?Q (rev rest)"
    by simp
  then have "rev (rev rest) = rev (takeWhile ?Q (rev rest) @ dropWhile ?Q (rev rest))"
    by (rule arg_cong)
  with e y have r: "rest = (rev u @ ''}'') @ rev (takeWhile ?Q (rev rest))"
    by simp
  have c: "CHR ''}'' \<notin> set (rev (takeWhile ?Q (rev rest)))"
    by (auto dest: set_takeWhileD)
  from s r m have "s = takeWhile ?P s @ m @ rev (takeWhile ?Q (rev rest))"
    by simp
  with m a c show ?thesis
    by blast
qed

lemma approve_all_nonempty:
  assumes "ensure h = Inr u"
    and "startProcess sb (h @ [EnsureClawdbotGateway]) list_cmd = Inr listProc"
    and "getLogs listProc (cli_waitForProcess listProc CLI_TIMEOUT_MS) = Inr listLogs"
    and "json_match (or_else (stdout listLogs) []) = Some m"
    and "JSON_parse m = Inr data"
    and "pending_prop data = Some pending"
    and "pending \<noteq> []"
  shows "\<exists>results.
           admin_approve_all ensure sb JSON_parse pending_prop h =
             (Json (JObj
                [(''approved'', JArr (map (\<lambda>r. JStr (a_requestId r)) (filter a_success results))),
                 (''failed'', JArr (map approval_obj (filter (\<lambda>r. \<not> a_success r) results))),
                 (''message'', JStr (''Approved '' @ show_nat (length (filter a_success results))
                                     @ '' of '' @ show_nat (length pending) @ '' device(s)''))])
                200,
              h @ [EnsureClawdbotGateway, StartProcess list_cmd]
                @ map (\<lambda>d. StartProcess (approve_cmd (requestId d))) pending)
           \<and> length results = length pending
           \<and> (\<forall>i < length pending. \<forall>p l err.
                 (startProcess sb
                    (h @ [EnsureClawdbotGateway, StartProcess list_cmd]
                       @ map (\<lambda>d. StartProcess (approve_cmd (requestId d))) (take i pending))
                    (approve_cmd (requestId (pending ! i))) = Inl err
                  \<longrightarrow> results ! i
                        = Approval (requestId (pending ! i)) False (Some (err_message err)))
               \<and> (startProcess sb
                    (h @ [EnsureClawdbotGateway, StartProcess list_cmd]
                       @ map (\<lambda>d. StartProcess (approve_cmd (requestId d))) (take i pending))
                    (approve_cmd (requestId (pending ! i))) = Inr p
                  \<and> getLogs p (cli_waitForProcess p CLI_TIMEOUT_MS) = Inl err
                  \<longrightarrow> results ! i
                        = Approval (requestId (pending ! i)) False (Some (err_message err)))
               \<and> (startProcess sb
                    (h @ [EnsureClawdbotGateway, StartProcess list_cmd]
                       @ map (\<lambda>d. StartProcess (approve_cmd (requestId d))) (take i pending))
                    (approve_cmd (requestId (pending ! i))) = Inr p
                  \<and> getLogs p (cli_waitForProcess p CLI_TIMEOUT_MS) = Inr l
                  \<longrightarrow> results ! i
                        = Approval (requestId (pending ! i))
                            (opt_includes (map_option str_toLowerCase (stdout l)) ''approved''
                             \<or> exitCode p (cli_waitForProcess p CLI_TIMEOUT_MS) = Some 0)
                            None))"
proof -
  let ?h2 = "h @ [EnsureClawdbotGateway, StartProcess list_cmd]"
  let ?results = "fst (approve_loop sb pending [] ?h2)"
  have run: "admin_approve_all ensure sb JSON_parse pending_prop h =
               (approve_all_response ?results (length pending),
                snd (approve_loop sb pending [] ?h2))"
    using assms by (simp add: admin_approve_all_def Let_def split: prod.splits)
  have len: "length ?results = length pending"
    by (simp add: approve_loop_length)
  have item: "?results ! i = fst (approve_one sb (pending ! i)
                (?h2 @ map (\<lambda>d. StartProcess (approve_cmd (requestId d))) (take i pending)))"
    if "i < length pending" for i
    using that by (rule approve_loop_nth)
  show ?thesis
  proof (intro exI [of _ ?results] conjI allI impI)
    show "admin_approve_all ensure sb JSON_parse pending_prop h =
             (Json (JObj
                [(''approved'', JArr (map (\<lambda>r. JStr (a_requestId r)) (filter a_success ?results))),
                 (''failed'', JArr (map approval_obj (filter (\<lambda>r. \<not> a_success r) ?results))),
                 (''message'', JStr (''Approved '' @ show_nat (length (filter a_success ?results))
                                     @ '' of '' @ show_nat (length pending) @ '' device(s)''))])
                200,
              h @ [EnsureClawdbotGateway, StartProcess list_cmd]
                @ map (\<lambda>d. StartProcess (approve_cmd (requestId d))) pending)"
      by (simp add: run approve_all_response_def approve_loop_calls)
    show "length ?results = length pending"
      by (rule len)
  next
    fix i p l err
    assume "i < length pending"
    then show "startProcess sb
                    (h @ [EnsureClawdbotGateway, StartProcess list_cmd]
                       @ map (\<lambda>d. StartProcess (approve_cmd (requestId d))) (take i pending))
                    (approve_cmd (requestId (pending ! i))) = Inl err
                  \<Longrightarrow> ?results ! i
                        = Approval (requestId (pending ! i)) False (Some (err_message err))"
      using approve_one_result [of sb "?h2 @ map (\<lambda>d. StartProcess (approve_cmd (requestId d))) (take i pending)" "pending ! i" err]
      by (simp add: item)
  next
    fix i p l err
    assume "i < length pending"
    then show "startProcess sb
                    (h @ [EnsureClawdbotGateway, StartProcess list_cmd]
                       @ map (\<lambda>d. StartProcess (approve_cmd (requestId d))) (take i pending))
                    (approve_cmd (requestId (pending ! i))) = Inr p
                  \<and> getLogs p (cli_waitForProcess p CLI_TIMEOUT_MS) = Inl err
                  \<Longrightarrow> ?results ! i
                        = Approval (requestId (pending ! i)) False (Some (err_message err))"
      using approve_one_result [of sb "?h2 @ map (\<lambda>d. StartProcess (approve_cmd (requestId d))) (take i pending)" "pending ! i" err p]
      by (simp add: item)
  next
    fix i p l err
    assume "i < length pending"
    then show "startProcess sb
                    (h @ [EnsureClawdbotGateway, StartProcess list_cmd]
                       @ map (\<lambda>d. StartProcess (approve_cmd (requestId d))) (take i pending))
                    (approve_cmd (requestId (pending ! i))) = Inr p
                  \<and> getLogs p (cli_waitForProcess p CLI_TIMEOUT_MS) = Inr l
                  \<Longrightarrow> ?results ! i
                        = Approval (requestId (pending ! i))
                            (opt_includes (map_option str_toLowerCase (stdout l)) ''approved''
                             \<or> exitCode p (cli_waitForProcess p CLI_TIMEOUT_MS) = Some 0)
                            None"
      using approve_one_result [of sb "?h2 @ map (\<lambda>d. StartProcess (approve_cmd (requestId d))) (take i pending)" "pending ! i" _ p l]
      by (simp add: item)
  qed
qed

section \<open>The claims\<close>

text \<open>
  C1. When the source check does not see the critical file (the standard output of the
  check process does not contain ok), \<open>syncToR2\<close> returns the failure
  \<^verbatim>\<open>Sync aborted: source missing clawdbot.json\<close>; the only calls it has made are the mount
  and the check, so the mirror command is never started; and whatever is observed of the
  durable mount is the same before and after, for every observation \<open>durable\<close> that the
  mount call and the check command leave as it is.
\<close>

theorem syncToR2_source_missing:
  assumes "truthy (R2_ACCESS_KEY_ID e)" and "truthy (R2_SECRET_ACCESS_KEY e)"
    and "truthy (CF_ACCOUNT_ID e)"
    and "mount h = Inr True"
    and "startProcess sb (h @ [MountR2Storage]) check_cmd = Inr checkProc"
    and "getLogs checkProc (sync_waitForProcess checkProc 5000) = Inr checkLogs"
    and "\<not> opt_includes (stdout checkLogs) ''ok''"
  shows "syncToR2 mp mount sb e h =
           (Inr \<lparr>success = False, lastSync = None,
                 error = Some ''Sync aborted: source missing clawdbot.json'',
                 details = Some ''The local config directory is missing critical files. This could indicate corruption or an incomplete setup.''\<rparr>,
            h @ [MountR2Storage, StartProcess check_cmd])
         \<and> StartProcess (syncCmd mp) \<notin> set (drop (length h) (snd (syncToR2 mp mount sb e h)))
         \<and> ((\<forall>k. durable (k @ [MountR2Storage]) = durable k)
              \<and> (\<forall>k. durable (k @ [StartProcess check_cmd]) = durable k)
             \<longrightarrow> durable (snd (syncToR2 mp mount sb e h)) = durable h)"
proof -
  have run: "syncToR2 mp mount sb e h =
           (Inr \<lparr>success = False, lastSync = None,
                 error = Some ''Sync aborted: source missing clawdbot.json'',
                 details = Some ''The local config directory is missing critical files. This could indicate corruption or an incomplete setup.''\<rparr>,
            h @ [MountR2Storage, StartProcess check_cmd])"
    using assms by (simp add: syncToR2_def sync_failure_def)
  have never: "StartProcess (syncCmd mp) \<notin> set (drop (length h) (snd (syncToR2 mp mount sb e h)))"
    by (simp add: run syncCmd_not_check)
  have frame: "durable (snd (syncToR2 mp mount sb e h)) = durable h"
    if a: "\<forall>k. durable (k @ [MountR2Storage]) = durable k"
      and b: "\<forall>k. durable (k @ [StartProcess check_cmd]) = durable k"
  proof -
    have "durable ((h @ [MountR2Storage]) @ [StartProcess check_cmd]) = durable h"
      using a b by metis
    then show ?thesis by (simp add: run)
  qed
  show ?thesis using run never frame by blast
qed

theorem syncToR2_source_missing_witness:
  "syncToR2 mock_mount_path mount_ok (createMockSandbox reply_empty) createMockEnvWithR2 [] =
     (Inr \<lparr>success = False, lastSync = None,
           error = Some ''Sync aborted: source missing clawdbot.json'',
           details = Some ''The local config directory is missing critical files. This could indicate corruption or an incomplete setup.''\<rparr>,
      [MountR2Storage, StartProcess check_cmd])
   \<and> StartProcess (syncCmd mock_mount_path)
       \<notin> set (snd (syncToR2 mock_mount_path mount_ok (createMockSandbox reply_empty)
                      createMockEnvWithR2 []))
   \<and> mirror_runs (snd (syncToR2 mock_mount_path mount_ok (createMockSandbox reply_empty)
                          createMockEnvWithR2 [])) = mirror_runs []"
proof -
  let ?p = "createMockProcess [] 0 [] ''completed''"
  have c: "truthy (R2_ACCESS_KEY_ID createMockEnvWithR2)"
    "truthy (R2_SECRET_ACCESS_KEY createMockEnvWithR2)"
    "truthy (CF_ACCOUNT_ID createMockEnvWithR2)"
    by (simp_all add: createMockEnvWithR2_def)
  have m: "mount_ok [] = Inr True"
    by (simp add: mount_ok_def)
  have s: "startProcess (createMockSandbox reply_empty) ([] @ [MountR2Storage]) check_cmd = Inr ?p"
    by (simp add: createMockSandbox_def reply_empty_def)
  have g: "getLogs ?p (sync_waitForProcess ?p 5000) = Inr \<lparr>stdout = Some [], stderr = Some []\<rparr>"
    by (simp add: mock_getLogs)
  have n: "\<not> opt_includes (stdout \<lparr>stdout = Some [], stderr = Some []\<rparr>) ''ok''"
    by simp
  have d1: "\<forall>k. mirror_runs (k @ [MountR2Storage]) = mirror_runs k"
    by (simp add: mirror_runs_def)
  have d2: "\<forall>k. mirror_runs (k @ [StartProcess check_cmd]) = mirror_runs k"
    using syncCmd_not_check [of mock_mount_path] by (auto simp: mirror_runs_def)
  note t = syncToR2_source_missing
            [where e = createMockEnvWithR2 and mount = mount_ok and h = "[]"
               and sb = "createMockSandbox reply_empty" and checkProc = ?p
               and checkLogs = "\<lparr>stdout = Some [], stderr = Some []\<rparr>"
               and mp = mock_mount_path and durable = mirror_runs, OF c m s g n]
  from t have r1: "syncToR2 mock_mount_path mount_ok (createMockSandbox reply_empty)
      createMockEnvWithR2 [] =
     (Inr \<lparr>success = False, lastSync = None,
           error = Some ''Sync aborted: source missing clawdbot.json'',
           details = Some ''The local config directory is missing critical files. This could indicate corruption or an incomplete setup.''\<rparr>,
      [] @ [MountR2Storage, StartProcess check_cmd])"
    by (rule conjunct1)
  from t have r2: "StartProcess (syncCmd mock_mount_path)
       \<notin> set (drop (length ([] :: call list))
                (snd (syncToR2 mock_mount_path mount_ok (createMockSandbox reply_empty)
                      createMockEnvWithR2 [])))"
    by blast
  from t d1 d2 have r3: "mirror_runs (snd (syncToR2 mock_mount_path mount_ok
       (createMockSandbox reply_empty) createMockEnvWithR2 [])) = mirror_runs []"
    by blast
  from r1 r2 r3 show ?thesis
    by simp
qed

text \<open>
  C2, as the claim states it, fails: when the marker read back fails the pattern and the
  logs of the mirror process cannot be read, the error is \<^verbatim>\<open>Sync error\<close>, not
  \<^verbatim>\<open>Sync failed\<close>.
\<close>

theorem sync_failed_counterexample:
  "\<not> marker_ok (map_option str_trim (Some []))
   \<and> syncToR2 mock_mount_path mount_ok (createMockSandbox reply_unreadable_mirror)
        createMockEnvWithR2 []
     = (Inr \<lparr>success = False, lastSync = None, error = Some ''Sync error'',
             details = Some ''logs unavailable''\<rparr>,
        [MountR2Storage, StartProcess check_cmd, StartProcess (syncCmd mock_mount_path),
         StartProcess (timestamp_cmd mock_mount_path)])"
proof -
  have w: "sync_waitForProcess unreadable_process t = 0" for t
    by (simp add: sync_waitForProcess_def sync_wait_loop.simps unreadable_process_def
          createMockProcess_def)
  have u: "getLogs unreadable_process k = Inl (Error ''logs unavailable'')" for k
    by (simp add: unreadable_process_def)
  have m: "sync_mirror mock_mount_path (createMockSandbox reply_unreadable_mirror)
             [MountR2Storage, StartProcess check_cmd]
           = (\<lparr>success = False, lastSync = None, error = Some ''Sync error'',
                details = Some ''logs unavailable''\<rparr>,
              [MountR2Storage, StartProcess check_cmd, StartProcess (syncCmd mock_mount_path),
               StartProcess (timestamp_cmd mock_mount_path)])"
    by (simp add: sync_mirror_def createMockSandbox_def reply_unreadable_mirror_def
          syncCmd_not_check timestamp_cmd_not_check timestamp_cmd_not_syncCmd
          mock_wait mock_getLogs w u sync_failure_def str_trim_def)
  have r: "syncToR2 mock_mount_path mount_ok (createMockSandbox reply_unreadable_mirror)
             createMockEnvWithR2 []
           = (Inr (fst (sync_mirror mock_mount_path (createMockSandbox reply_unreadable_mirror)
                          ([] @ [MountR2Storage, StartProcess check_cmd]))),
              snd (sync_mirror mock_mount_path (createMockSandbox reply_unreadable_mirror)
                     ([] @ [MountR2Storage, StartProcess check_cmd])))"
    by (rule syncToR2_reaches_mirror
          [where checkProc = "createMockProcess ''ok'' 0 [] ''completed''"
             and checkLogs = "\<lparr>stdout = Some ''ok'', stderr = Some []\<rparr>"])
       (simp_all add: createMockEnvWithR2_def mount_ok_def createMockSandbox_def
          reply_unreadable_mirror_def mock_getLogs)
  show ?thesis
    by (simp add: r m str_trim_def)
qed

text \<open>
  C2, amended. For every run of \<open>syncToR2\<close> that reaches the mirror step, starts the
  mirror and the read of the marker and gets the logs of that read, with \<open>t\<close> the trimmed
  standard output of the read: the result is a success exactly when \<open>t\<close> is non-empty and
  starts like an ISO date, and then it is \<^verbatim>\<open>{success: true, lastSync: t}\<close>; otherwise it
  is a failure whatever the mirror process reported: \<^verbatim>\<open>Sync failed\<close> when the logs of the
  mirror process can be read, \<^verbatim>\<open>Sync error\<close> when reading them throws.
  The trim is that of JavaScript on the strings of the model: every white-space code unit
  below U+0100, the no-break space included, is stripped from both ends.
\<close>

theorem sync_decided_by_marker:
  assumes "truthy (R2_ACCESS_KEY_ID e)" and "truthy (R2_SECRET_ACCESS_KEY e)"
    and "truthy (CF_ACCOUNT_ID e)"
    and "mount h = Inr True"
    and "startProcess sb (h @ [MountR2Storage]) check_cmd = Inr checkProc"
    and "getLogs checkProc (sync_waitForProcess checkProc 5000) = Inr checkLogs"
    and "opt_includes (stdout checkLogs) ''ok''"
    and "startProcess sb (h @ [MountR2Storage, StartProcess check_cmd]) (syncCmd mp) = Inr proc"
    and "startProcess sb (h @ [MountR2Storage, StartProcess check_cmd, StartProcess (syncCmd mp)])
           (timestamp_cmd mp) = Inr timestampProc"
    and "getLogs timestampProc (sync_waitForProcess timestampProc 5000) = Inr timestampLogs"
  shows "\<exists>r. fst (syncToR2 mp mount sb e h) = Inr r
           \<and> (success r = marker_ok (map_option str_trim (stdout timestampLogs)))
           \<and> r = (if marker_ok (map_option str_trim (stdout timestampLogs))
                  then \<lparr>success = True, lastSync = map_option str_trim (stdout timestampLogs),
                        error = None, details = None\<rparr>
                  else (case getLogs proc (sync_waitForProcess proc 30000
                                           + sync_waitForProcess timestampProc 5000) of
                          Inr logs \<Rightarrow>
                            \<lparr>success = False, lastSync = None, error = Some ''Sync failed'',
                             details = Some (failure_details logs)\<rparr>
                        | Inl err \<Rightarrow>
                            \<lparr>success = False, lastSync = None, error = Some ''Sync error'',
                             details = Some (err_message err)\<rparr>))"
proof -
  have "fst (sync_mirror mp sb (h @ [MountR2Storage, StartProcess check_cmd])) =
          (if marker_ok (map_option str_trim (stdout timestampLogs))
                  then \<lparr>success = True, lastSync = map_option str_trim (stdout timestampLogs),
                        error = None, details = None\<rparr>
                  else (case getLogs proc (sync_waitForProcess proc 30000
                                           + sync_waitForProcess timestampProc 5000) of
                          Inr logs \<Rightarrow>
                            \<lparr>success = False, lastSync = None, error = Some ''Sync failed'',
                             details = Some (failure_details logs)\<rparr>
                        | Inl err \<Rightarrow>
                            \<lparr>success = False, lastSync = None, error = Some ''Sync error'',
                             details = Some (err_message err)\<rparr>))"
    using assms(8-10) by (simp add: sync_mirror_def sync_failure_def split: sum.splits)
  then show ?thesis
    using syncToR2_reaches_mirror [where mount = mount and h = h and mp = mp, OF assms(1-7)]
    by (simp split: sum.splits)
qed


theorem sync_decided_by_marker_witness:
  "fst (syncToR2 mock_mount_path mount_ok (createMockSandbox reply_synced) createMockEnvWithR2 [])
     = Inr \<lparr>success = True, lastSync = Some ''2026-01-27T12:00:00+00:00'',
            error = None, details = None\<rparr>
   \<and> fst (syncToR2 mock_mount_path mount_ok (createMockSandbox reply_no_marker)
           createMockEnvWithR2 [])
     = Inr \<lparr>success = False, lastSync = None, error = Some ''Sync failed'',
            details = Some ''No timestamp file created''\<rparr>"
proof -
  let ?ok = "createMockProcess ''ok'' 0 [] ''completed''"
  let ?empty = "createMockProcess [] 0 [] ''completed''"
  let ?stamp = "createMockProcess (''2026-01-27T12:00:00+00:00'' @ [CHR 0x0A]) 0 [] ''completed''"
  have t1: "\<exists>r. fst (syncToR2 mock_mount_path mount_ok (createMockSandbox reply_synced)
                      createMockEnvWithR2 []) = Inr r
           \<and> (success r = marker_ok (map_option str_trim
                 (stdout \<lparr>stdout = Some (''2026-01-27T12:00:00+00:00'' @ [CHR 0x0A]),
                          stderr = Some []\<rparr>)))
           \<and> r = (if marker_ok (map_option str_trim
                 (stdout \<lparr>stdout = Some (''2026-01-27T12:00:00+00:00'' @ [CHR 0x0A]),
                          stderr = Some []\<rparr>))
                  then \<lparr>success = True, lastSync = map_option str_trim
                 (stdout \<lparr>stdout = Some (''2026-01-27T12:00:00+00:00'' @ [CHR 0x0A]),
                          stderr = Some []\<rparr>),
                        error = None, details = None\<rparr>
                  else (case getLogs ?empty (sync_waitForProcess ?empty 30000
                                           + sync_waitForProcess ?stamp 5000) of
                          Inr logs \<Rightarrow>
                            \<lparr>success = False, lastSync = None, error = Some ''Sync failed'',
                             details = Some (failure_details logs)\<rparr>
                        | Inl err \<Rightarrow>
                            \<lparr>success = False, lastSync = None, error = Some ''Sync error'',
                             details = Some (err_message err)\<rparr>))"
    by (rule sync_decided_by_marker
          [where checkProc = ?ok and checkLogs = "\<lparr>stdout = Some ''ok'', stderr = Some []\<rparr>"])
       (simp_all add: createMockEnvWithR2_def mount_ok_def createMockSandbox_def
          reply_synced_def mock_getLogs syncCmd_not_check timestamp_cmd_not_check
          timestamp_cmd_not_syncCmd [symmetric])
  have t2: "\<exists>r. fst (syncToR2 mock_mount_path mount_ok (createMockSandbox reply_no_marker)
                      createMockEnvWithR2 []) = Inr r
           \<and> (success r = marker_ok (map_option str_trim
                 (stdout \<lparr>stdout = Some [], stderr = Some []\<rparr>)))
           \<and> r = (if marker_ok (map_option str_trim
                 (stdout \<lparr>stdout = Some [], stderr = Some []\<rparr>))
                  then \<lparr>success = True, lastSync = map_option str_trim
                 (stdout \<lparr>stdout = Some [], stderr = Some []\<rparr>),
                        error = None, details = None\<rparr>
                  else (case getLogs ?empty (sync_waitForProcess ?empty 30000
                                           + sync_waitForProcess ?empty 5000) of
                          Inr logs \<Rightarrow>
                            \<lparr>success = False, lastSync = None, error = Some ''Sync failed'',
                             details = Some (failure_details logs)\<rparr>
                        | Inl err \<Rightarrow>
                            \<lparr>success = False, lastSync = None, error = Some ''Sync error'',
                             details = Some (err_message err)\<rparr>))"
    by (rule sync_decided_by_marker
          [where checkProc = ?ok and checkLogs = "\<lparr>stdout = Some ''ok'', stderr = Some []\<rparr>"])
       (simp_all add: createMockEnvWithR2_def mount_ok_def createMockSandbox_def
          reply_no_marker_def mock_getLogs syncCmd_not_check timestamp_cmd_not_check)
  have k1: "marker_ok (map_option str_trim
                 (stdout \<lparr>stdout = Some (''2026-01-27T12:00:00+00:00'' @ [CHR 0x0A]),
                          stderr = Some []\<rparr>))"
    by (simp add: str_trim_def is_space_def iso_date_pattern_def is_digit_def)
  have k2: "map_option str_trim
                 (stdout \<lparr>stdout = Some (''2026-01-27T12:00:00+00:00'' @ [CHR 0x0A]),
                          stderr = Some []\<rparr>) = Some ''2026-01-27T12:00:00+00:00''"
    by (simp add: str_trim_def is_space_def)
  have k3: "\<not> marker_ok (map_option str_trim (stdout \<lparr>stdout = Some [], stderr = Some []\<rparr>))"
    by (simp add: str_trim_def)
  from t1 k1 k2 t2 k3 show ?thesis
    by (auto simp: mock_getLogs failure_details_def)
qed

text \<open>
  C3. When one of the three credentials is absent (or empty), \<open>syncToR2\<close> returns
  \<^verbatim>\<open>R2 storage is not configured\<close> at once, with no call made. The sync endpoint answers
  a failure with status 400 when its error text contains \<^verbatim>\<open>not configured\<close> and with 500
  otherwise; among the failures of \<open>syncToR2\<close> the text contains it exactly when a
  credential is absent.
\<close>

theorem not_configured_is_client_error:
  "(\<not> truthy (R2_ACCESS_KEY_ID e) \<or> \<not> truthy (R2_SECRET_ACCESS_KEY e)
      \<or> \<not> truthy (CF_ACCOUNT_ID e)
    \<longrightarrow> syncToR2 mp mount sb e h =
          (Inr \<lparr>success = False, lastSync = None,
                error = Some ''R2 storage is not configured'', details = None\<rparr>, h))
   \<and> (fst (syncToR2 mp mount sb e h) = Inr r \<and> \<not> success r
      \<longrightarrow> admin_storage_sync mp mount sb e h =
            (Inr (Json (JObj [(''success'', JBool False), (''error'', opt_str (error r)),
                              (''details'', opt_str (details r))])
                    (if opt_includes (error r) ''not configured'' then 400 else 500)),
             snd (syncToR2 mp mount sb e h))
          \<and> (opt_includes (error r) ''not configured''
               = (\<not> truthy (R2_ACCESS_KEY_ID e) \<or> \<not> truthy (R2_SECRET_ACCESS_KEY e)
                  \<or> \<not> truthy (CF_ACCOUNT_ID e))))"
proof -
  have a: "syncToR2 mp mount sb e h =
          (Inr \<lparr>success = False, lastSync = None,
                error = Some ''R2 storage is not configured'', details = None\<rparr>, h)"
    if "\<not> truthy (R2_ACCESS_KEY_ID e) \<or> \<not> truthy (R2_SECRET_ACCESS_KEY e)
      \<or> \<not> truthy (CF_ACCOUNT_ID e)"
    using that by (auto simp: syncToR2_def sync_failure_def)
  have b: "admin_storage_sync mp mount sb e h =
            (Inr (Json (JObj [(''success'', JBool False), (''error'', opt_str (error r)),
                              (''details'', opt_str (details r))])
                    (if opt_includes (error r) ''not configured'' then 400 else 500)),
             snd (syncToR2 mp mount sb e h))"
    if "fst (syncToR2 mp mount sb e h) = Inr r" and "\<not> success r"
    using that by (cases "syncToR2 mp mount sb e h") (simp add: admin_storage_sync_def)
  show ?thesis using a b syncToR2_error by blast
qed

theorem not_configured_is_client_error_witness:
  "syncToR2 mock_mount_path mount_refused (createMockSandbox reply_empty) createMockEnv []
     = (Inr \<lparr>success = False, lastSync = None,
             error = Some ''R2 storage is not configured'', details = None\<rparr>, [])
   \<and> admin_storage_sync mock_mount_path mount_refused (createMockSandbox reply_empty)
        createMockEnv []
     = (Inr (Json (JObj [(''success'', JBool False),
                         (''error'', JStr ''R2 storage is not configured''),
                         (''details'', JUndefined)]) 400), [])
   \<and> admin_storage_sync mock_mount_path mount_refused (createMockSandbox reply_empty)
        createMockEnvWithR2 []
     = (Inr (Json (JObj [(''success'', JBool False),
                         (''error'', JStr ''Failed to mount R2 storage''),
                         (''details'', JUndefined)]) 500), [MountR2Storage])"
proof -
  let ?sb = "createMockSandbox reply_empty"
  let ?r1 = "\<lparr>success = False, lastSync = None,
             error = Some ''R2 storage is not configured'', details = None\<rparr>"
  let ?r2 = "\<lparr>success = False, lastSync = None,
             error = Some ''Failed to mount R2 storage'', details = None\<rparr>"
  have s1: "syncToR2 mock_mount_path mount_refused ?sb createMockEnv [] = (Inr ?r1, [])"
    by (simp add: syncToR2_def createMockEnv_def sync_failure_def)
  have s2: "syncToR2 mock_mount_path mount_refused ?sb createMockEnvWithR2 []
              = (Inr ?r2, [MountR2Storage])"
    by (simp add: syncToR2_def createMockEnvWithR2_def sync_failure_def mount_refused_def)
  show ?thesis
    using not_configured_is_client_error
            [of createMockEnv mock_mount_path mount_refused ?sb "[]" ?r1]
          not_configured_is_client_error
            [of createMockEnvWithR2 mock_mount_path mount_refused ?sb "[]" ?r2]
    by (simp add: s1 s2 createMockEnv_def)
qed

text \<open>
  C4. For an approval request with a request id, once the gateway is ensured, the approve
  command has started and its logs are read, the response is
  \<^verbatim>\<open>{success, requestId, message, stdout, stderr}\<close> with status 200, and \<open>success\<close> is true
  exactly when the lowercased standard output contains \<^verbatim>\<open>approved\<close> or the exit code is
  zero. The witness is the spec's example: \<^verbatim>\<open>Approved device X\<close> with exit code 1.
\<close>

theorem approve_success_policy:
  assumes "rid \<noteq> []"
    and "ensure h = Inr u"
    and "startProcess sb (h @ [EnsureClawdbotGateway]) (approve_cmd rid) = Inr proc"
    and "getLogs proc (cli_waitForProcess proc CLI_TIMEOUT_MS) = Inr logs"
  shows "\<exists>ok. fst (admin_approve ensure sb (Some rid) h) =
                 Json (JObj [(''success'', JBool ok),
                             (''requestId'', JStr rid),
                             (''message'', JStr (if ok then ''Device approved''
                                                 else ''Approval may have failed'')),
                             (''stdout'', JStr (or_else (stdout logs) [])),
                             (''stderr'', JStr (or_else (stderr logs) []))]) 200
              \<and> ok = (str_includes (str_toLowerCase (or_else (stdout logs) [])) ''approved''
                      \<or> exitCode proc (cli_waitForProcess proc CLI_TIMEOUT_MS) = Some 0)"
  using assms by (simp add: admin_approve_def Let_def)

theorem approve_success_policy_witness:
  "fst (admin_approve ensure_ok (createMockSandbox reply_approved_exit_1) (Some ''req-1'') []) =
     Json (JObj [(''success'', JBool True),
                 (''requestId'', JStr ''req-1''),
                 (''message'', JStr ''Device approved''),
                 (''stdout'', JStr ''Approved device X''),
                 (''stderr'', JStr [])]) 200
   \<and> exitCode (createMockProcess ''Approved device X'' 1 [] ''completed'') 0 = Some 1"
proof -
  let ?p = "createMockProcess ''Approved device X'' 1 [] ''completed''"
  have k: "str_includes (str_toLowerCase ''Approved device X'') ''approved''"
    by (simp add: str_toLowerCase_def upper_units_def lower_units_def)
  have "\<exists>ok. fst (admin_approve ensure_ok (createMockSandbox reply_approved_exit_1)
                     (Some ''req-1'') []) =
                 Json (JObj [(''success'', JBool ok),
                             (''requestId'', JStr ''req-1''),
                             (''message'', JStr (if ok then ''Device approved''
                                                 else ''Approval may have failed'')),
                             (''stdout'', JStr (or_else (stdout \<lparr>stdout = Some ''Approved device X'', stderr = Some []\<rparr>) [])),
                             (''stderr'', JStr (or_else (stderr \<lparr>stdout = Some ''Approved device X'', stderr = Some []\<rparr>) []))]) 200
              \<and> ok = (str_includes (str_toLowerCase (or_else (stdout \<lparr>stdout = Some ''Approved device X'', stderr = Some []\<rparr>) [])) ''approved''
                      \<or> exitCode ?p (cli_waitForProcess ?p CLI_TIMEOUT_MS) = Some 0)"
    by (rule approve_success_policy [where u = "()"])
       (simp_all add: ensure_ok_def createMockSandbox_def reply_approved_exit_1_def mock_getLogs)
  with k show ?thesis
    by (auto simp: mock_exitCode)
qed

text \<open>
  C5, as the claim states it, fails at its own example: the standard output
  \<^verbatim>\<open>log line\<close>, newline, \<^verbatim>\<open>{not valid json\<close> has no closing brace, so the pattern finds
  nothing, \<^verbatim>\<open>JSON.parse\<close> is never called, and the response has no \<^verbatim>\<open>parseError\<close>.
\<close>

theorem devices_malformed_counterexample:
  "json_match malformed_stdout = None
   \<and> fst (admin_devices ensure_ok (createMockSandbox reply_malformed) parse_rejects []) =
       Json (JObj [(''pending'', JArr []), (''paired'', JArr []),
                   (''raw'', JStr malformed_stdout), (''stderr'', JStr [])]) 200"
proof -
  have m: "json_match malformed_stdout = None"
    by (simp add: json_match_def malformed_stdout_def)
  have n: "malformed_stdout \<noteq> []"
    by (simp add: malformed_stdout_def)
  show ?thesis
    by (simp add: m n admin_devices_def ensure_ok_def createMockSandbox_def reply_malformed_def
          mock_getLogs raw_listing_def)
qed

text \<open>
  C5, amended. The handler answers in every case. When the gateway cannot be ensured, the
  list command cannot be started or its logs cannot be read, the answer is \<^verbatim>\<open>{error}\<close>
  with status 500. Otherwise, with the standard output captured: when the pattern finds
  nothing, the answer is the listing with empty \<^verbatim>\<open>pending\<close> and \<^verbatim>\<open>paired\<close>, the raw
  standard output and the standard error, without \<^verbatim>\<open>parseError\<close>; when the pattern finds
  a text (from the first opening brace to the last closing brace after it) and
  \<^verbatim>\<open>JSON.parse\<close> throws on it, the answer is that listing with \<^verbatim>\<open>parseError\<close>; when the
  text parses, the answer is the parsed value. The handler is a total function to
  responses: every call that can throw is inside its \<^verbatim>\<open>try\<close>.
\<close>

theorem devices_parse_failure:
  "(ensure h = Inl err \<longrightarrow>
      fst (admin_devices ensure sb JSON_parse h)
        = Json (JObj [(''error'', JStr (err_message err))]) 500)
   \<and> (ensure h = Inr u \<and> startProcess sb (h @ [EnsureClawdbotGateway]) list_cmd = Inl err \<longrightarrow>
      fst (admin_devices ensure sb JSON_parse h)
        = Json (JObj [(''error'', JStr (err_message err))]) 500)
   \<and> (ensure h = Inr u \<and> startProcess sb (h @ [EnsureClawdbotGateway]) list_cmd = Inr proc
       \<and> getLogs proc (cli_waitForProcess proc CLI_TIMEOUT_MS) = Inl err \<longrightarrow>
      fst (admin_devices ensure sb JSON_parse h)
        = Json (JObj [(''error'', JStr (err_message err))]) 500)
   \<and> (ensure h = Inr u \<and> startProcess sb (h @ [EnsureClawdbotGateway]) list_cmd = Inr proc
       \<and> getLogs proc (cli_waitForProcess proc CLI_TIMEOUT_MS) = Inr logs
       \<and> json_match (or_else (stdout logs) []) = None \<longrightarrow>
      fst (admin_devices ensure sb JSON_parse h)
        = Json (JObj [(''pending'', JArr []), (''paired'', JArr []),
                      (''raw'', JStr (or_else (stdout logs) [])),
                      (''stderr'', JStr (or_else (stderr logs) []))]) 200)
   \<and> (ensure h = Inr u \<and> startProcess sb (h @ [EnsureClawdbotGateway]) list_cmd = Inr proc
       \<and> getLogs proc (cli_waitForProcess proc CLI_TIMEOUT_MS) = Inr logs
       \<and> json_match (or_else (stdout logs) []) = Some m \<and> JSON_parse m = Inl err \<longrightarrow>
      fst (admin_devices ensure sb JSON_parse h)
        = Json (JObj [(''pending'', JArr []), (''paired'', JArr []),
                      (''raw'', JStr (or_else (stdout logs) [])),
                      (''stderr'', JStr (or_else (stderr logs) [])),
                      (''parseError'', JStr ''Failed to parse CLI output'')]) 200)
   \<and> (ensure h = Inr u \<and> startProcess sb (h @ [EnsureClawdbotGateway]) list_cmd = Inr proc
       \<and> getLogs proc (cli_waitForProcess proc CLI_TIMEOUT_MS) = Inr logs
       \<and> json_match (or_else (stdout logs) []) = Some m \<and> JSON_parse m = Inr data \<longrightarrow>
      fst (admin_devices ensure sb JSON_parse h) = Json data 200)"
proof -
  let ?E = "Json (JObj [(''error'', JStr (err_message err))]) 500"
  have thrown: "fst (admin_devices ensure sb JSON_parse h) = ?E"
    if "ensure h = Inl err
        \<or> (ensure h = Inr u
            \<and> startProcess sb (h @ [EnsureClawdbotGateway]) list_cmd = Inl err)
        \<or> (ensure h = Inr u
            \<and> startProcess sb (h @ [EnsureClawdbotGateway]) list_cmd = Inr proc
            \<and> getLogs proc (cli_waitForProcess proc CLI_TIMEOUT_MS) = Inl err)"
    using that by (auto simp: admin_devices_def error_500_def)
  have read: "fst (admin_devices ensure sb JSON_parse h) =
        (case json_match (or_else (stdout logs) []) of
           None \<Rightarrow> Json (JObj (raw_listing (or_else (stdout logs) []) (or_else (stderr logs) [])))
                     200
         | Some m \<Rightarrow>
             (case JSON_parse m of
                Inl e \<Rightarrow>
                  Json (JObj (raw_listing (or_else (stdout logs) []) (or_else (stderr logs) [])
                              @ [(''parseError'', JStr ''Failed to parse CLI output'')])) 200
              | Inr data \<Rightarrow> Json data 200))"
    if "ensure h = Inr u"
      and "startProcess sb (h @ [EnsureClawdbotGateway]) list_cmd = Inr proc"
      and "getLogs proc (cli_waitForProcess proc CLI_TIMEOUT_MS) = Inr logs"
    using that by (simp add: admin_devices_def Let_def split: option.splits sum.splits)
  from thrown read show ?thesis
    by (simp add: raw_listing_def)
qed

theorem devices_parse_failure_witness:
  "fst (admin_devices ensure_ok (createMockSandbox reply_malformed_closed) parse_rejects []) =
     Json (JObj [(''pending'', JArr []), (''paired'', JArr []),
                 (''raw'', JStr (malformed_stdout @ ''}'')), (''stderr'', JStr []),
                 (''parseError'', JStr ''Failed to parse CLI output'')]) 200"
proof -
  let ?p = "createMockProcess (malformed_stdout @ ''}'') 0 [] ''completed''"
  let ?l = "\<lparr>stdout = Some (malformed_stdout @ ''}''), stderr = Some []\<rparr>"
  have e: "ensure_ok [] = Inr ()"
    by (simp add: ensure_ok_def)
  have s: "startProcess (createMockSandbox reply_malformed_closed) ([] @ [EnsureClawdbotGateway])
             list_cmd = Inr ?p"
    by (simp add: createMockSandbox_def reply_malformed_closed_def)
  have g: "getLogs ?p (cli_waitForProcess ?p CLI_TIMEOUT_MS) = Inr ?l"
    by (simp add: mock_getLogs)
  have m: "json_match (or_else (stdout ?l) []) = Some ''{not valid json}''"
    by (simp add: json_match_def malformed_stdout_def)
  have o: "or_else (stdout ?l) [] = malformed_stdout @ ''}''" "or_else (stderr ?l) [] = []"
    by (simp_all add: malformed_stdout_def)
  have j: "parse_rejects ''{not valid json}'' = Inl (Error ''Unexpected token n in JSON at position 1'')"
    by (simp add: parse_rejects_def)
  from devices_parse_failure
         [where ensure = ensure_ok and h = "[]" and JSON_parse = parse_rejects
            and sb = "createMockSandbox reply_malformed_closed" and u = "()"
            and proc = ?p and logs = ?l
            and m = "''{not valid json}''"
            and err = "Error ''Unexpected token n in JSON at position 1''"]
       e s g m j
  show ?thesis
    by (simp add: o)
qed

text \<open>
  C6. The health endpoint: with no matching process it answers
  \<^verbatim>\<open>{ok: false, status: 'not_running'}\<close>, without a process id; with a process whose port
  does not answer within the timeout (\<open>waitForPort\<close> throws),
  \<^verbatim>\<open>{ok: false, status: 'not_responding', processId}\<close>; with a process whose port answers,
  \<^verbatim>\<open>{ok: true, status: 'running', processId}\<close>.
\<close>

theorem status_cases:
  "(findExisting h = Inr None \<longrightarrow>
      api_status findExisting h =
        (Json (JObj [(''ok'', JBool False), (''status'', JStr ''not_running'')]) 200,
         h @ [FindExistingClawdbotProcess]))
   \<and> (findExisting h = Inr (Some p) \<and> waitForPort p 18789 5000 = Inl err \<longrightarrow>
      api_status findExisting h =
        (Json (JObj [(''ok'', JBool False), (''status'', JStr ''not_responding''),
                     (''processId'', JStr (proc_id p))]) 200,
         h @ [FindExistingClawdbotProcess, WaitForPort (proc_id p) 18789 5000]))
   \<and> (findExisting h = Inr (Some p) \<and> waitForPort p 18789 5000 = Inr u \<longrightarrow>
      api_status findExisting h =
        (Json (JObj [(''ok'', JBool True), (''status'', JStr ''running''),
                     (''processId'', JStr (proc_id p))]) 200,
         h @ [FindExistingClawdbotProcess, WaitForPort (proc_id p) 18789 5000]))"
proof -
  have absent: "api_status findExisting h =
        (Json (JObj [(''ok'', JBool False), (''status'', JStr ''not_running'')]) 200,
         h @ [FindExistingClawdbotProcess])"
    if "findExisting h = Inr None"
    using that by (simp add: api_status_def)
  have silent: "api_status findExisting h =
        (Json (JObj [(''ok'', JBool False), (''status'', JStr ''not_responding''),
                     (''processId'', JStr (proc_id p))]) 200,
         h @ [FindExistingClawdbotProcess, WaitForPort (proc_id p) 18789 5000])"
    if "findExisting h = Inr (Some p)" and "waitForPort p 18789 5000 = Inl err"
    using that by (simp add: api_status_def)
  have answers: "api_status findExisting h =
        (Json (JObj [(''ok'', JBool True), (''status'', JStr ''running''),
                     (''processId'', JStr (proc_id p))]) 200,
         h @ [FindExistingClawdbotProcess, WaitForPort (proc_id p) 18789 5000])"
    if "findExisting h = Inr (Some p)" and "waitForPort p 18789 5000 = Inr u"
    using that by (simp add: api_status_def)
  from absent silent answers show ?thesis
    by blast
qed

theorem status_cases_witness:
  "api_status find_none [] =
     (Json (JObj [(''ok'', JBool False), (''status'', JStr ''not_running'')]) 200,
      [FindExistingClawdbotProcess])
   \<and> api_status find_wedged [] =
     (Json (JObj [(''ok'', JBool False), (''status'', JStr ''not_responding''),
                  (''processId'', JStr ''gw-1'')]) 200,
      [FindExistingClawdbotProcess, WaitForPort ''gw-1'' 18789 5000])
   \<and> api_status find_running [] =
     (Json (JObj [(''ok'', JBool True), (''status'', JStr ''running''),
                  (''processId'', JStr ''gw-2'')]) 200,
      [FindExistingClawdbotProcess, WaitForPort ''gw-2'' 18789 5000])"
proof -
  have a: "find_none [] = Inr None"
    by (simp add: find_none_def)
  have b: "find_wedged [] = Inr (Some wedged_gateway) \<and> waitForPort wedged_gateway 18789 5000 = Inl Thrown"
    by (simp add: find_wedged_def wedged_gateway_def createMockProcess_def)
  have c: "find_running [] = Inr (Some running_gateway) \<and> waitForPort running_gateway 18789 5000 = Inr ()"
    by (simp add: find_running_def running_gateway_def)
  have i: "proc_id wedged_gateway = ''gw-1''" "proc_id running_gateway = ''gw-2''"
    by (simp_all add: wedged_gateway_def running_gateway_def)
  from a b c show ?thesis
    using status_cases [of find_none "[]" wedged_gateway Thrown "()"]
          status_cases [of find_wedged "[]" wedged_gateway Thrown "()"]
          status_cases [of find_running "[]" running_gateway Thrown "()"]
    by (simp add: i)
qed

text \<open>
  C7, as the claim states it, fails for a pending list of no device: the handler answers
  \<^verbatim>\<open>{approved: [], message: 'No pending devices to approve'}\<close>, with no \<^verbatim>\<open>failed\<close> and
  not the message \<^verbatim>\<open>Approved 0 of 0 device(s)\<close>.
\<close>

theorem bulk_approve_empty_counterexample:
  "typed_pending empty_listing = Some []
   \<and> admin_approve_all ensure_ok (createMockSandbox reply_none_pending) parse_listings
         typed_pending [] =
       (Json (JObj [(''approved'', JArr []),
                    (''message'', JStr ''No pending devices to approve'')]) 200,
        [EnsureClawdbotGateway, StartProcess list_cmd])"
proof -
  have m: "json_match empty_listing_text = Some empty_listing_text"
    by (simp add: json_match_def empty_listing_text_def)
  have n: "empty_listing_text \<noteq> []"
    by (simp add: empty_listing_text_def)
  have p: "parse_listings empty_listing_text = Inr empty_listing"
    by (simp add: parse_listings_def empty_listing_text_def three_listing_text_def)
  have t: "typed_pending empty_listing = Some []"
    by (simp add: empty_listing_def)
  have r: "reply_none_pending list_cmd
             = Inr (createMockProcess empty_listing_text 0 [] ''completed'')"
    by (simp add: reply_none_pending_def)
  show ?thesis
    by (simp add: t admin_approve_all_def ensure_ok_def createMockSandbox_def r mock_getLogs
          n m p)
qed

text \<open>
  C7, amended. For a bulk approval, once the gateway is ensured and the listing is read and
  decoded into a pending list of \<open>n\<close> devices. When \<open>n = 0\<close> the response is
  \<^verbatim>\<open>{approved: [], message: 'No pending devices to approve'}\<close> and no approval is
  started. When \<open>n > 0\<close>: every pending device gets exactly one result, in order, and every
  approve command is started, whatever happened to the ones before it. A device whose
  approve process fails to start or whose logs cannot be read gets
  \<^verbatim>\<open>{requestId, success: false, error}\<close>; a device whose logs are read gets
  \<^verbatim>\<open>{requestId, success}\<close> by the rule of the single approval. The response lists the ids
  of the successes, the failed results and \<^verbatim>\<open>Approved k of n device(s)\<close>, \<open>k\<close> the number of
  successes. The witness is the spec's example: three devices, the second throws.
\<close>

theorem bulk_approve_aggregates:
  assumes "ensure h = Inr u"
    and "startProcess sb (h @ [EnsureClawdbotGateway]) list_cmd = Inr listProc"
    and "getLogs listProc (cli_waitForProcess listProc CLI_TIMEOUT_MS) = Inr listLogs"
    and "json_match (or_else (stdout listLogs) []) = Some m"
    and "JSON_parse m = Inr data"
    and "pending_prop data = Some pending"
  shows "(pending = [] \<longrightarrow>
            admin_approve_all ensure sb JSON_parse pending_prop h =
              (Json (JObj [(''approved'', JArr []),
                           (''message'', JStr ''No pending devices to approve'')]) 200,
               h @ [EnsureClawdbotGateway, StartProcess list_cmd]))
         \<and> (pending \<noteq> [] \<longrightarrow>
            (\<exists>results.
               admin_approve_all ensure sb JSON_parse pending_prop h =
                 (Json (JObj
                    [(''approved'', JArr (map (\<lambda>r. JStr (a_requestId r)) (filter a_success results))),
                     (''failed'', JArr (map approval_obj (filter (\<lambda>r. \<not> a_success r) results))),
                     (''message'', JStr (''Approved '' @ show_nat (length (filter a_success results))
                                         @ '' of '' @ show_nat (length pending) @ '' device(s)''))])
                    200,
                  h @ [EnsureClawdbotGateway, StartProcess list_cmd]
                    @ map (\<lambda>d. StartProcess (approve_cmd (requestId d))) pending)
               \<and> length results = length pending
               \<and> (\<forall>i < length pending. \<forall>p l err.
                     (startProcess sb
                        (h @ [EnsureClawdbotGateway, StartProcess list_cmd]
                           @ map (\<lambda>d. StartProcess (approve_cmd (requestId d))) (take i pending))
                        (approve_cmd (requestId (pending ! i))) = Inl err
                      \<longrightarrow> results ! i
                            = Approval (requestId (pending ! i)) False (Some (err_message err)))
                   \<and> (startProcess sb
                        (h @ [EnsureClawdbotGateway, StartProcess list_cmd]
                           @ map (\<lambda>d. StartProcess (approve_cmd (requestId d))) (take i pending))
                        (approve_cmd (requestId (pending ! i))) = Inr p
                      \<and> getLogs p (cli_waitForProcess p CLI_TIMEOUT_MS) = Inl err
                      \<longrightarrow> results ! i
                            = Approval (requestId (pending ! i)) False (Some (err_message err)))
                   \<and> (startProcess sb
                        (h @ [EnsureClawdbotGateway, StartProcess list_cmd]
                           @ map (\<lambda>d. StartProcess (approve_cmd (requestId d))) (take i pending))
                        (approve_cmd (requestId (pending ! i))) = Inr p
                      \<and> getLogs p (cli_waitForProcess p CLI_TIMEOUT_MS) = Inr l
                      \<longrightarrow> results ! i
                            = Approval (requestId (pending ! i))
                                (opt_includes (map_option str_toLowerCase (stdout l)) ''approved''
                                 \<or> exitCode p (cli_waitForProcess p CLI_TIMEOUT_MS) = Some 0)
                                None))))"
proof -
  have none: "admin_approve_all ensure sb JSON_parse pending_prop h =
              (Json (JObj [(''approved'', JArr []),
                           (''message'', JStr ''No pending devices to approve'')]) 200,
               h @ [EnsureClawdbotGateway, StartProcess list_cmd])"
    if "pending = []"
    using assms that by (simp add: admin_approve_all_def Let_def)
  from none approve_all_nonempty
         [where ensure = ensure and h = h and JSON_parse = JSON_parse
            and pending_prop = pending_prop, OF assms]
  show ?thesis
    by blast
qed

theorem bulk_approve_aggregates_witness:
  "fst (admin_approve_all ensure_ok (createMockSandbox reply_second_throws) parse_listings
          typed_pending []) =
     Json (JObj [(''approved'', JArr [JStr ''id1'', JStr ''id3'']),
                 (''failed'', JArr [JObj [(''requestId'', JStr ''id2''), (''success'', JBool False),
                                          (''error'', JStr ''spawn failed'')]]),
                 (''message'', JStr ''Approved 2 of 3 device(s)'')]) 200
   \<and> fst (admin_approve_all ensure_ok (createMockSandbox reply_none_pending) parse_listings
            typed_pending []) =
       Json (JObj [(''approved'', JArr []),
                   (''message'', JStr ''No pending devices to approve'')]) 200"
proof -
  let ?ep = "createMockProcess empty_listing_text 0 [] ''completed''"
  have e2: "startProcess (createMockSandbox reply_none_pending) ([] @ [EnsureClawdbotGateway])
              list_cmd = Inr ?ep"
    by (simp add: createMockSandbox_def reply_none_pending_def)
  have e3: "getLogs ?ep (cli_waitForProcess ?ep CLI_TIMEOUT_MS)
              = Inr \<lparr>stdout = Some empty_listing_text, stderr = Some []\<rparr>"
    by (simp add: mock_getLogs)
  have e4: "json_match (or_else (stdout \<lparr>stdout = Some empty_listing_text, stderr = Some []\<rparr>)
              []) = Some empty_listing_text"
    by (simp add: json_match_def empty_listing_text_def)
  have e5: "parse_listings empty_listing_text = Inr empty_listing"
    by (simp add: parse_listings_def empty_listing_text_def three_listing_text_def)
  have e6: "typed_pending empty_listing = Some []"
    by (simp add: empty_listing_def)
  let ?sb = "createMockSandbox reply_second_throws"
  let ?pending = "[Device ''id1'', Device ''id2'', Device ''id3'']"
  let ?lp = "createMockProcess three_listing_text 0 [] ''completed''"
  let ?ap = "createMockProcess ''Approved'' 0 [] ''completed''"
  let ?h2 = "[] @ [EnsureClawdbotGateway, StartProcess list_cmd]"
  have sp: "startProcess ?sb k cmd = reply_second_throws cmd" for k cmd
    by (simp add: createMockSandbox_def)
  have r1: "reply_second_throws (approve_cmd ''id1'') = Inr ?ap"
    and r2: "reply_second_throws (approve_cmd ''id2'') = Inl (Error ''spawn failed'')"
    and r3: "reply_second_throws (approve_cmd ''id3'') = Inr ?ap"
    and r0: "reply_second_throws list_cmd = Inr ?lp"
    by (simp_all add: reply_second_throws_def approve_cmd_def list_cmd_def)
  have a1: "ensure_ok [] = Inr ()"
    by (simp add: ensure_ok_def)
  have a2: "startProcess ?sb ([] @ [EnsureClawdbotGateway]) list_cmd = Inr ?lp"
    by (simp add: sp r0)
  have a3: "getLogs ?lp (cli_waitForProcess ?lp CLI_TIMEOUT_MS)
              = Inr \<lparr>stdout = Some three_listing_text, stderr = Some []\<rparr>"
    by (simp add: mock_getLogs)
  have a4: "json_match (or_else (stdout \<lparr>stdout = Some three_listing_text, stderr = Some []\<rparr>)
              []) = Some three_listing_text"
    by (simp add: json_match_def three_listing_text_def)
  have a5: "parse_listings three_listing_text = Inr three_listing"
    by (simp add: parse_listings_def)
  have a6: "typed_pending three_listing = Some ?pending"
    by (simp add: three_listing_def)
  have a7: "?pending \<noteq> []"
    by simp
  note t = bulk_approve_aggregates
             [where ensure = ensure_ok and h = "[]" and JSON_parse = parse_listings
                and pending_prop = typed_pending, OF a1 a2 a3 a4 a5 a6]
  note t0 = bulk_approve_aggregates
              [where ensure = ensure_ok and h = "[]" and JSON_parse = parse_listings
                 and pending_prop = typed_pending, OF a1 e2 e3 e4 e5 e6]
  from t0 have none: "admin_approve_all ensure_ok (createMockSandbox reply_none_pending)
                        parse_listings typed_pending [] =
              (Json (JObj [(''approved'', JArr []),
                           (''message'', JStr ''No pending devices to approve'')]) 200,
               [] @ [EnsureClawdbotGateway, StartProcess list_cmd])"
    by blast
  from t [THEN conjunct2, rule_format, OF a7]
  obtain results where
    resp: "admin_approve_all ensure_ok ?sb parse_listings typed_pending [] =
             (Json (JObj
                [(''approved'', JArr (map (\<lambda>r. JStr (a_requestId r)) (filter a_success results))),
                 (''failed'', JArr (map approval_obj (filter (\<lambda>r. \<not> a_success r) results))),
                 (''message'', JStr (''Approved '' @ show_nat (length (filter a_success results))
                                     @ '' of '' @ show_nat (length ?pending) @ '' device(s)''))])
                200,
              [] @ [EnsureClawdbotGateway, StartProcess list_cmd] @ map (\<lambda>d. StartProcess (approve_cmd (requestId d))) ?pending)"
    and len: "length results = length ?pending"
    and item: "\<forall>i < length ?pending. \<forall>p l err.
                 (startProcess ?sb
                    ([] @ [EnsureClawdbotGateway, StartProcess list_cmd] @ map (\<lambda>d. StartProcess (approve_cmd (requestId d))) (take i ?pending))
                    (approve_cmd (requestId (?pending ! i))) = Inl err
                  \<longrightarrow> results ! i
                        = Approval (requestId (?pending ! i)) False (Some (err_message err)))
               \<and> (startProcess ?sb
                    ([] @ [EnsureClawdbotGateway, StartProcess list_cmd] @ map (\<lambda>d. StartProcess (approve_cmd (requestId d))) (take i ?pending))
                    (approve_cmd (requestId (?pending ! i))) = Inr p
                  \<and> getLogs p (cli_waitForProcess p CLI_TIMEOUT_MS) = Inl err
                  \<longrightarrow> results ! i
                        = Approval (requestId (?pending ! i)) False (Some (err_message err)))
               \<and> (startProcess ?sb
                    ([] @ [EnsureClawdbotGateway, StartProcess list_cmd] @ map (\<lambda>d. StartProcess (approve_cmd (requestId d))) (take i ?pending))
                    (approve_cmd (requestId (?pending ! i))) = Inr p
                  \<and> getLogs p (cli_waitForProcess p CLI_TIMEOUT_MS) = Inr l
                  \<longrightarrow> results ! i
                        = Approval (requestId (?pending ! i))
                            (opt_includes (map_option str_toLowerCase (stdout l)) ''approved''
                             \<or> exitCode p (cli_waitForProcess p CLI_TIMEOUT_MS) = Some 0)
                            None)"
    by (elim exE conjE) (rule that, assumption+)
  have ok: "opt_includes (map_option str_toLowerCase (Some ''Approved'')) ''approved''"
    by (simp add: str_toLowerCase_def upper_units_def lower_units_def)
  from item [rule_format, where i = 0 and p = ?ap
               and l = "\<lparr>stdout = Some ''Approved'', stderr = Some []\<rparr>"]
  have i0: "results ! 0 = Approval ''id1'' True None"
    using ok by (simp add: sp r1 mock_getLogs)
  from item [rule_format, where i = 1 and err = "Error ''spawn failed''"]
  have i1: "results ! 1 = Approval ''id2'' False (Some ''spawn failed'')"
    by (simp add: sp r2)
  from item [rule_format, where i = 2 and p = ?ap
               and l = "\<lparr>stdout = Some ''Approved'', stderr = Some []\<rparr>"]
  have i2: "results ! 2 = Approval ''id3'' True None"
    using ok by (simp add: sp r3 mock_getLogs)
  from len have "length results = 3" by simp
  from list3_eq [OF this i0 i1 i2]
  have "results = [Approval ''id1'' True None, Approval ''id2'' False (Some ''spawn failed''),
                   Approval ''id3'' True None]" .
  with resp none show ?thesis
    by (simp add: show_nat.simps)
qed




text \<open>
  C9, as the claim states it, fails on the spec's own \<open>ensureMounted\<close>: when the mount
  table does not show the mount and the mount request is refused, neither of two calls
  in succession returns success, and the mount request is made twice.
\<close>

theorem ensureMounted_twice_counterexample:
  "ensureMounted_twice mock_mount_path inspect_never sandbox_denied createMockEnvWithR2 [] =
     (Inl (Error ''AccessDenied''), Inl (Error ''AccessDenied''),
      [MountBucket mock_mount_path, MountBucket mock_mount_path])"
  by (simp add: ensureMounted_twice_def ensureMounted_def inspect_never_def sandbox_denied_def)

text \<open>
  C9, amended. When the mount table already shows the mount, \<open>ensureMounted\<close> returns
  success and makes no call. Otherwise it makes one mount request: a request that succeeds
  or that fails because the target is already in use is reported as success, any other
  failure is surfaced as it is. When the first of two calls in succession returns success
  and the mount table then shows the mount, both calls return success and at most one
  mount request is made.
\<close>

theorem ensureMounted_idempotent:
  "(inspect h \<longrightarrow> ensureMounted mp inspect sb c h = (Inr True, h))
   \<and> (\<not> inspect h \<and> mountBucket sb h mp c = Inr u
      \<longrightarrow> ensureMounted mp inspect sb c h = (Inr True, h @ [MountBucket mp]))
   \<and> (\<not> inspect h \<and> mountBucket sb h mp c = Inl err
       \<and> str_includes (err_message err) ''already in use''
      \<longrightarrow> ensureMounted mp inspect sb c h = (Inr True, h @ [MountBucket mp]))
   \<and> (\<not> inspect h \<and> mountBucket sb h mp c = Inl err
       \<and> \<not> str_includes (err_message err) ''already in use''
      \<longrightarrow> ensureMounted mp inspect sb c h = (Inl err, h @ [MountBucket mp]))
   \<and> (fst (ensureMounted mp inspect sb c h) = Inr True
       \<and> inspect (snd (ensureMounted mp inspect sb c h))
      \<longrightarrow> (\<exists>h'. ensureMounted_twice mp inspect sb c h = (Inr True, Inr True, h')
                \<and> length (filter (\<lambda>x. x = MountBucket mp) (drop (length h) h')) \<le> 1))"
proof -
  have a: "ensureMounted mp inspect sb c h = (Inr True, h)" if "inspect h"
    using that by (simp add: ensureMounted_def)
  have b: "ensureMounted mp inspect sb c h = (Inr True, h @ [MountBucket mp])"
    if "\<not> inspect h" and "mountBucket sb h mp c = Inl err"
      and "str_includes (err_message err) ''already in use''"
    using that by (simp add: ensureMounted_def)
  have b1: "ensureMounted mp inspect sb c h = (Inr True, h @ [MountBucket mp])"
    if "\<not> inspect h" and "mountBucket sb h mp c = Inr u"
    using that by (simp add: ensureMounted_def)
  have b2: "ensureMounted mp inspect sb c h = (Inl err, h @ [MountBucket mp])"
    if "\<not> inspect h" and "mountBucket sb h mp c = Inl err"
      and "\<not> str_includes (err_message err) ''already in use''"
    using that by (simp add: ensureMounted_def)
  have calls: "snd (ensureMounted mp inspect sb c h) = h
               \<or> snd (ensureMounted mp inspect sb c h) = h @ [MountBucket mp]"
    by (simp add: ensureMounted_def split: sum.splits)
  have t: "\<exists>h'. ensureMounted_twice mp inspect sb c h = (Inr True, Inr True, h')
                \<and> length (filter (\<lambda>x. x = MountBucket mp) (drop (length h) h')) \<le> 1"
    if r: "fst (ensureMounted mp inspect sb c h) = Inr True"
      and i: "inspect (snd (ensureMounted mp inspect sb c h))"
  proof -
    obtain h1 where f: "ensureMounted mp inspect sb c h = (Inr True, h1)"
      using r by (cases "ensureMounted mp inspect sb c h") simp
    from i f have "ensureMounted mp inspect sb c h1 = (Inr True, h1)"
      by (simp add: ensureMounted_def)
    with f have tw: "ensureMounted_twice mp inspect sb c h = (Inr True, Inr True, h1)"
      by (simp add: ensureMounted_twice_def)
    from calls f have "h1 = h \<or> h1 = h @ [MountBucket mp]"
      by simp
    then have "length (filter (\<lambda>x. x = MountBucket mp) (drop (length h) h1)) \<le> 1"
      by auto
    with tw show ?thesis by blast
  qed
  from a b b1 b2 t show ?thesis by blast
qed

theorem ensureMounted_idempotent_witness:
  "ensureMounted_twice mock_mount_path inspect_after_mount (createMockSandbox reply_empty)
     createMockEnvWithR2 [] = (Inr True, Inr True, [MountBucket mock_mount_path])
   \<and> ensureMounted mock_mount_path inspect_after_mount (createMockSandbox reply_empty)
       createMockEnvWithR2 [MountBucket mock_mount_path] = (Inr True, [MountBucket mock_mount_path])
   \<and> ensureMounted mock_mount_path inspect_never sandbox_in_use createMockEnvWithR2 []
       = (Inr True, [MountBucket mock_mount_path])"
proof -
  let ?sb = "createMockSandbox reply_empty"
  have f: "ensureMounted mock_mount_path inspect_after_mount ?sb createMockEnvWithR2 []
           = (Inr True, [MountBucket mock_mount_path])"
    by (simp add: ensureMounted_def inspect_after_mount_def createMockSandbox_def)
  have i: "inspect_after_mount [MountBucket mock_mount_path]"
    by (simp add: inspect_after_mount_def)
  have n: "\<not> inspect_never [] \<and> mountBucket sandbox_in_use [] mock_mount_path createMockEnvWithR2
             = Inl (Error ''mount point already in use'')
           \<and> str_includes (err_message (Error ''mount point already in use'')) ''already in use''"
    by (simp add: inspect_never_def sandbox_in_use_def)
  note t1 = ensureMounted_idempotent
              [where inspect = inspect_after_mount and h = "[]" and mp = mock_mount_path
                 and sb = ?sb and c = createMockEnvWithR2]
  note t2 = ensureMounted_idempotent
              [where inspect = inspect_after_mount and h = "[MountBucket mock_mount_path]"
                 and mp = mock_mount_path and sb = ?sb and c = createMockEnvWithR2]
  note t3 = ensureMounted_idempotent
              [where inspect = inspect_never and h = "[]" and mp = mock_mount_path
                 and sb = sandbox_in_use and c = createMockEnvWithR2
                 and err = "Error ''mount point already in use''"]
  from t1 f i obtain h' where
    "ensureMounted_twice mock_mount_path inspect_after_mount ?sb createMockEnvWithR2 []
       = (Inr True, Inr True, h')"
    by auto
  moreover have "ensureMounted_twice mock_mount_path inspect_after_mount ?sb createMockEnvWithR2 []
       = (Inr True, Inr True, [MountBucket mock_mount_path])"
  proof -
    have "ensureMounted mock_mount_path inspect_after_mount ?sb createMockEnvWithR2
            [MountBucket mock_mount_path] = (Inr True, [MountBucket mock_mount_path])"
      by (simp add: ensureMounted_def i)
    with f show ?thesis
      by (simp add: ensureMounted_twice_def)
  qed
  moreover from t2 i have "ensureMounted mock_mount_path inspect_after_mount ?sb
       createMockEnvWithR2 [MountBucket mock_mount_path] = (Inr True, [MountBucket mock_mount_path])"
    by blast
  moreover from t3 n have "ensureMounted mock_mount_path inspect_never sandbox_in_use
       createMockEnvWithR2 [] = (Inr True, [] @ [MountBucket mock_mount_path])"
    by blast
  ultimately show ?thesis by simp
qed

text \<open>
  C10. When \<open>DEV_MODE\<close> is the string \<^verbatim>\<open>true\<close>, the access middleware sets the user
  \<^verbatim>\<open>{email: 'dev@localhost', name: 'Dev User'}\<close> and runs the rest of the chain, whose
  response it returns; the only call it logs itself is \<open>Next\<close>, so \<open>verifyAccessJWT\<close> is not
  called; and the outcome is the same for every request, every token configured in the
  environment, every option and every behaviour of \<open>verifyAccessJWT\<close>: no credential is
  compared.
\<close>

theorem dev_mode_skips_auth:
  assumes "DEV_MODE e = Some ''true''"
  shows "createAccessMiddleware options verify next_handler e req h =
           (fst (next_handler \<lparr>email = ''dev@localhost'', name = Some ''Dev User''\<rparr> (h @ [Next])),
            Some \<lparr>email = ''dev@localhost'', name = Some ''Dev User''\<rparr>,
            snd (next_handler \<lparr>email = ''dev@localhost'', name = Some ''Dev User''\<rparr> (h @ [Next])))
         \<and> (\<forall>options' verify' e' req'. DEV_MODE e' = Some ''true'' \<longrightarrow>
               createAccessMiddleware options' verify' next_handler e' req' h
               = createAccessMiddleware options verify next_handler e req h)"
  using assms
  by (simp add: createAccessMiddleware_def isDevMode_def set_user_and_next_def split: prod.splits)

theorem dev_mode_skips_auth_witness:
  "createAccessMiddleware json_options verify_rejects whoami dev_env bare_request [] =
     (Json (JObj [(''email'', JStr ''dev@localhost''), (''name'', JStr ''Dev User'')]) 200,
      Some \<lparr>email = ''dev@localhost'', name = Some ''Dev User''\<rparr>,
      [Next])"
proof -
  have "DEV_MODE dev_env = Some ''true''"
    by (simp add: dev_env_def)
  from dev_mode_skips_auth [OF this, of json_options verify_rejects whoami bare_request "[]"]
  show ?thesis
    by (simp add: whoami_def)
qed

end
